theory Spec2Isabelle
  imports Complex_Main "HOL-Library.Word"
begin

section \<open>JavaScript numbers\<close>

text \<open>
  A JavaScript number is an IEEE double. The model keeps the three non-finite values apart
  from the finite ones, so that a division by zero is visible in a result, and takes the
  finite values as real numbers: the rounding of each operation is not modelled.
\<close>

datatype jsnum = Fin real | PosInf | NegInf | NaN

fun js_add :: "jsnum \<Rightarrow> jsnum \<Rightarrow> jsnum" where
  "js_add (Fin a) (Fin b) = Fin (a + b)"
| "js_add NaN _ = NaN"
| "js_add _ NaN = NaN"
| "js_add PosInf NegInf = NaN"
| "js_add NegInf PosInf = NaN"
| "js_add PosInf _ = PosInf"
| "js_add _ PosInf = PosInf"
| "js_add NegInf _ = NegInf"
| "js_add _ NegInf = NegInf"

text \<open>
  Division. A zero divisor is the positive zero (every divisor of the program is a count
  or the literal 255.0).
\<close>

fun js_div :: "jsnum \<Rightarrow> jsnum \<Rightarrow> jsnum" where
  "js_div NaN _ = NaN"
| "js_div _ NaN = NaN"
| "js_div (Fin a) (Fin b) =
     (if b \<noteq> 0 then Fin (a / b)
      else if 0 < a then PosInf else if a < 0 then NegInf else NaN)"
| "js_div (Fin a) _ = Fin 0"
| "js_div PosInf (Fin b) = (if 0 \<le> b then PosInf else NegInf)"
| "js_div NegInf (Fin b) = (if 0 \<le> b then NegInf else PosInf)"
| "js_div _ _ = NaN"

fun is_finite :: "jsnum \<Rightarrow> bool" where
  "is_finite (Fin _) = True"
| "is_finite _ = False"

section \<open>Audio analyser and band extraction\<close>

type_synonym byte = "8 word"

record config =
  fftSize :: nat
  smoothingTimeConstant :: real
  bloomStrength :: real
  bloomRadius :: real
  bloomThreshold :: real

definition CONFIG :: config where
  "CONFIG = \<lparr> fftSize = 2048, smoothingTimeConstant = 0.85,
              bloomStrength = 1.5, bloomRadius = 0.4, bloomThreshold = 0.1 \<rparr>"

text \<open>
  The analyser node of the Web Audio API, as far as the program reads it:
  \<open>frequencyBinCount\<close> is half the FFT size, and \<open>getByteFrequencyData\<close> copies the current
  spectrum into the array it is given, as many bytes as fit.
\<close>

record analyserNode =
  a_fftSize :: nat
  a_smoothingTimeConstant :: real

definition frequencyBinCount :: "analyserNode \<Rightarrow> nat" where
  "frequencyBinCount a = a_fftSize a div 2"

definition getByteFrequencyData :: "byte list \<Rightarrow> byte list \<Rightarrow> byte list" where
  "getByteFrequencyData spectrum arr =
     take (length arr) spectrum @ drop (length spectrum) arr"

text \<open>The module-level variables \<open>analyser\<close>, \<open>dataArray\<close> and \<open>isAudioActive\<close>.\<close>

record audio_globals =
  analyser :: "analyserNode option"
  dataArray :: "byte list"
  isAudioActive :: bool

definition initial_globals :: audio_globals where
  "initial_globals = \<lparr> analyser = None, dataArray = [], isAudioActive = False \<rparr>"

text \<open>
  \<open>startAudio\<close> runs in two steps around its \<open>await\<close>: the analyser is replaced
  before the capture stream is requested, and the array and the flag are set only when the
  stream is granted. Frames are rendered in between, and a refused request ends after the
  first step. Reading \<open>frequencyBinCount\<close> of a missing analyser would raise into the
  \<open>catch\<close> block, which leaves the variables as they are.
\<close>

definition startAudio_begin :: "audio_globals \<Rightarrow> audio_globals" where
  "startAudio_begin g =
     g\<lparr>analyser := Some \<lparr> a_fftSize = fftSize CONFIG,
                              a_smoothingTimeConstant = smoothingTimeConstant CONFIG \<rparr>\<rparr>"

definition startAudio_granted :: "audio_globals \<Rightarrow> audio_globals" where
  "startAudio_granted g =
     (case analyser g of
        None \<Rightarrow> g
      | Some a \<Rightarrow> g\<lparr>dataArray := replicate (frequencyBinCount a) 0, isAudioActive := True\<rparr>)"

record audioBands =
  low :: jsnum
  mid :: jsnum
  high :: jsnum

text \<open>A typed array read: an index past the end gives \<open>undefined\<close>, a NaN in arithmetic.\<close>

definition js_index :: "byte list \<Rightarrow> nat \<Rightarrow> jsnum" where
  "js_index arr i = (if i < length arr then Fin (real (unat (arr ! i))) else NaN)"

text \<open>
  The accumulation loop of \<open>getAudioData\<close>:
  \<^verbatim>\<open>for (let i = 0; i < bufferLength; i++) {
      const val = dataArray[i] / 255.0;
      if (i < lowBound) lowSum += val;
      else if (i < midBound) midSum += val;
      else highSum += val; }\<close>
\<close>

function sumBands ::
  "byte list \<Rightarrow> nat \<Rightarrow> nat \<Rightarrow> nat \<Rightarrow> nat \<Rightarrow> jsnum \<times> jsnum \<times> jsnum
     \<Rightarrow> jsnum \<times> jsnum \<times> jsnum" where
  "sumBands arr bufferLength lowBound midBound i (lowSum, midSum, highSum) =
     (if i < bufferLength then
        (let val = js_div (js_index arr i) (Fin 255) in
         if i < lowBound then
           sumBands arr bufferLength lowBound midBound (Suc i) (js_add lowSum val, midSum, highSum)
         else if i < midBound then
           sumBands arr bufferLength lowBound midBound (Suc i) (lowSum, js_add midSum val, highSum)
         else
           sumBands arr bufferLength lowBound midBound (Suc i) (lowSum, midSum, js_add highSum val))
      else (lowSum, midSum, highSum))"
  by pat_completeness auto
termination
  by (relation "measure (\<lambda>(arr, bufferLength, lowBound, midBound, i, acc). bufferLength - i)") auto

declare sumBands.simps [simp del]

definition lowBound_of :: "nat \<Rightarrow> nat" where
  "lowBound_of bufferLength = nat \<lfloor>real bufferLength * 0.1\<rfloor>"

definition midBound_of :: "nat \<Rightarrow> nat" where
  "midBound_of bufferLength = nat \<lfloor>real bufferLength * 0.5\<rfloor>"

text \<open>The demo signal: three sine waves of the time in seconds.\<close>

definition demoBands :: "real \<Rightarrow> audioBands" where
  "demoBands time =
     \<lparr> low = Fin ((sin (time * 2.0) * 0.5 + 0.5) * 0.8),
       mid = Fin ((sin (time * 1.5 + 1.0) * 0.5 + 0.5) * 0.6),
       high = Fin ((sin (time * 3.0 + 2.0) * 0.5 + 0.5) * 0.5) \<rparr>"

text \<open>
  \<open>getAudioData\<close>. The spectrum is what the analyser holds at the call; the array
  \<open>dataArray\<close> is overwritten in place, so the globals are returned with the bands.
\<close>

definition getAudioData ::
  "audio_globals \<Rightarrow> byte list \<Rightarrow> real \<Rightarrow> audioBands \<times> audio_globals" where
  "getAudioData g spectrum time =
     (case (isAudioActive g, analyser g) of
        (True, Some a) \<Rightarrow>
          (let arr = getByteFrequencyData spectrum (dataArray g);
               bufferLength = frequencyBinCount a;
               lowBound = lowBound_of bufferLength;
               midBound = midBound_of bufferLength;
               (lowSum, midSum, highSum) =
                 sumBands arr bufferLength lowBound midBound 0 (Fin 0, Fin 0, Fin 0)
           in (\<lparr> low = js_div lowSum (Fin (real lowBound)),
                  mid = js_div midSum (Fin (real (midBound - lowBound))),
                  high = js_div highSum (Fin (real (bufferLength - midBound))) \<rparr>,
               g\<lparr>dataArray := arr\<rparr>))
      | _ \<Rightarrow> (demoBands time, g))"

text \<open>The value one bin adds to the sum of its band.\<close>

definition binval :: "byte list \<Rightarrow> nat \<Rightarrow> real" where
  "binval arr k = real (unat (arr ! k)) / 255"

text \<open>
  The three bands as the specification words them: the first tenth of the bin indices, the
  next four tenths and the remaining half, and the arithmetic mean of the bins of a band.
\<close>

definition lowBand :: "nat \<Rightarrow> nat set" where
  "lowBand n = {0 ..< nat \<lfloor>0.1 * real n\<rfloor>}"
definition midBand :: "nat \<Rightarrow> nat set" where
  "midBand n = {nat \<lfloor>0.1 * real n\<rfloor> ..< nat \<lfloor>0.5 * real n\<rfloor>}"
definition highBand :: "nat \<Rightarrow> nat set" where
  "highBand n = {nat \<lfloor>0.5 * real n\<rfloor> ..< n}"

definition bandMean :: "byte list \<Rightarrow> nat set \<Rightarrow> real" where
  "bandMean bins S = (\<Sum>k\<in>S. real (unat (bins ! k))) / real (card S)"

fun in_unit :: "jsnum \<Rightarrow> bool" where
  "in_unit (Fin x) = (0 \<le> x \<and> x \<le> 1)"
| "in_unit _ = False"

text \<open>
  The states of the audio variables that the program reaches: the initial one, the two steps
  of \<open>startAudio\<close>, and a frame's call of \<open>getAudioData\<close>.
\<close>

inductive reachable_globals :: "audio_globals \<Rightarrow> bool" where
  rg_init: "reachable_globals initial_globals"
| rg_begin: "reachable_globals g \<Longrightarrow> reachable_globals (startAudio_begin g)"
| rg_granted: "reachable_globals g \<Longrightarrow> reachable_globals (startAudio_granted g)"
| rg_frame: "reachable_globals g \<Longrightarrow> reachable_globals (snd (getAudioData g spectrum time))"

definition audio_inv :: "audio_globals \<Rightarrow> bool" where
  "audio_inv g \<longleftrightarrow>
     (\<forall>a. analyser g = Some a \<longrightarrow> a_fftSize a = 2048) \<and>
     (isAudioActive g \<longrightarrow> analyser g \<noteq> None \<and> length (dataArray g) = 1024)"

text \<open>The audio variables after one granted \<open>startAudio\<close>.\<close>

definition configured_globals :: audio_globals where
  "configured_globals = startAudio_granted (startAudio_begin initial_globals)"

section \<open>The visualizer manager\<close>

text \<open>
  The scene graph as the manager and the effects use it. Every effect creates one group,
  adds the group to the scene in its constructor and adds everything else it creates to
  that group, so a node of an effect hangs under the scene root exactly when the group of
  the effect is a child of the scene. Objects are numbered in the order of their creation.
  The private state of an effect (uniforms, meshes, particles) is not part of this model;
  the fireworks effect has a model of its own below.
\<close>

record vec3 =
  v_x :: real
  v_y :: real
  v_z :: real

definition vec :: "real \<Rightarrow> real \<Rightarrow> real \<Rightarrow> vec3" where
  "vec a b c = \<lparr> v_x = a, v_y = b, v_z = c \<rparr>"

record fogExp2 =
  fog_color :: nat
  fog_density :: real

text \<open>The pose of the camera: where it stands and the point it was last turned to.\<close>

record camera =
  cam_position :: vec3
  cam_lookAt :: vec3

record scene =
  children :: "nat list"
  fog :: "fogExp2 option"
  rotation_y :: real
  rotation_z :: real

text \<open>\<open>Object3D.add\<close> and \<open>Object3D.remove\<close> of the graphics library, on the scene root.\<close>

definition scene_add :: "scene \<Rightarrow> nat \<Rightarrow> scene" where
  "scene_add s obj = s\<lparr>children := remove1 obj (children s) @ [obj]\<rparr>"

definition scene_remove :: "scene \<Rightarrow> nat \<Rightarrow> scene" where
  "scene_remove s obj = s\<lparr>children := remove1 obj (children s)\<rparr>"

datatype effect_kind =
  CosmicEffect | WaveEffect | LightShowEffect | FireworksEffect | LightningStormEffect
  | AudioReactorEffect | MultiverseEffect

record effect =
  e_group :: nat
  e_kind :: effect_kind

text \<open>
  The history of the calls made on effects, kept beside the state to speak of their
  order: the construction, the call of \<open>dispose\<close> and the call of \<open>update\<close> of the effect
  with the given group.
\<close>

datatype call = Constructed nat effect_kind | Disposed nat | Updated nat

record manager =
  scene :: scene
  camera :: camera
  currentEffect :: "effect option"
  nextObject :: nat
  calls :: "call list"
  console :: "string list"

text \<open>How a call ends: it returns, or an exception leaves it.\<close>

datatype completion = Normal | Throw

text \<open>
  \<open>dispose\<close> of an effect. In every effect class it first removes the group from the
  scene; the lightning storm then clears the fog. What follows releases geometries,
  materials and textures, calls into the graphics library that change nothing here; whether
  one of them raises is given by \<open>releaseThrows\<close>.
\<close>

definition effect_dispose :: "effect \<Rightarrow> bool \<Rightarrow> manager \<Rightarrow> completion \<times> manager" where
  "effect_dispose e releaseThrows m =
     (let s1 = scene_remove (scene m) (e_group e);
          s2 = (if e_kind e = LightningStormEffect then s1\<lparr>fog := None\<rparr> else s1)
      in (if releaseThrows then Throw else Normal,
          m\<lparr>scene := s2, calls := calls m @ [Disposed (e_group e)]\<rparr>))"

text \<open>
  \<open>this.currentEffect = new K(this.scene)\<close>: the constructor creates the group, adds it to
  the scene and runs \<open>init\<close>, which for the lightning storm sets the fog.
\<close>

definition newEffect :: "effect_kind \<Rightarrow> manager \<Rightarrow> manager" where
  "newEffect k m =
     (let g = nextObject m;
          s1 = scene_add (scene m) g;
          s2 = (if k = LightningStormEffect
                then s1\<lparr>fog := Some \<lparr> fog_color = 0x020008, fog_density = 0.015 \<rparr>\<rparr>
                else s1)
      in m\<lparr>scene := s2, nextObject := Suc g,
           currentEffect := Some \<lparr> e_group = g, e_kind = k \<rparr>,
           calls := calls m @ [Constructed g k]\<rparr>)"

definition setCamera :: "vec3 \<Rightarrow> vec3 \<Rightarrow> manager \<Rightarrow> manager" where
  "setCamera pos target m = m\<lparr>camera := \<lparr> cam_position = pos, cam_lookAt = target \<rparr>\<rparr>"

definition setFog :: "fogExp2 option \<Rightarrow> manager \<Rightarrow> manager" where
  "setFog f m = m\<lparr>scene := (scene m)\<lparr>fog := f\<rparr>\<rparr>"

text \<open>The lines of \<open>switchMode\<close> between the disposal and the \<open>switch\<close>.\<close>

definition resetCamera :: "manager \<Rightarrow> manager" where
  "resetCamera m = setFog None (setCamera (vec 0 5 15) (vec 0 0 0) m)"

text \<open>
  The \<open>switch\<close> statement of \<open>switchMode\<close> in \<open>AudioVisualizer/visualizer.js\<close>: five
  cases and no default.
\<close>

definition modeCases :: "string \<Rightarrow> manager \<Rightarrow> manager" where
  "modeCases mode m =
     (if mode = ''cosmic'' then
        newEffect CosmicEffect
          (setFog (Some \<lparr> fog_color = 0x000000, fog_density = 0.02 \<rparr>) m)
      else if mode = ''wave'' then
        newEffect WaveEffect (setCamera (vec 0 5 30) (vec 0 5 (- 50)) m)
      else if mode = ''light'' then
        newEffect LightShowEffect m
      else if mode = ''fireworks'' then
        newEffect FireworksEffect (setCamera (vec 0 5 40) (vec 0 10 0) m)
      else if mode = ''lightning'' then
        newEffect LightningStormEffect (setCamera (vec 0 5 30) (vec 0 10 0) m)
      else m)"

text \<open>
  \<open>switchMode\<close> of \<open>AudioVisualizer/visualizer.js\<close>. An exception of \<open>dispose\<close> leaves the
  method at once.
\<close>

definition switchMode :: "string \<Rightarrow> bool \<Rightarrow> manager \<Rightarrow> completion \<times> manager" where
  "switchMode mode releaseThrows m =
     (let (c, m1) = (case currentEffect m of
                       Some e \<Rightarrow> effect_dispose e releaseThrows m
                     | None \<Rightarrow> (Normal, m))
      in case c of
           Throw \<Rightarrow> (Throw, m1)
         | Normal \<Rightarrow> (Normal, modeCases mode (resetCamera m1)))"

text \<open>
  The second file of \<open>unnamed/part_000\<close>: the \<open>switch\<close> has two more cases, and the call
  of \<open>dispose\<close> stands in a \<open>try\<close> whose \<open>catch\<close> writes the error to the console.
\<close>

definition modeCases_part000 :: "string \<Rightarrow> manager \<Rightarrow> manager" where
  "modeCases_part000 mode m =
     (if mode = ''cosmic'' then
        newEffect CosmicEffect
          (setFog (Some \<lparr> fog_color = 0x000000, fog_density = 0.02 \<rparr>) m)
      else if mode = ''wave'' then
        newEffect WaveEffect (setCamera (vec 0 5 30) (vec 0 5 (- 50)) m)
      else if mode = ''light'' then
        newEffect LightShowEffect m
      else if mode = ''fireworks'' then
        newEffect FireworksEffect (setCamera (vec 0 5 40) (vec 0 10 0) m)
      else if mode = ''lightning'' then
        newEffect LightningStormEffect (setCamera (vec 0 5 30) (vec 0 10 0) m)
      else if mode = ''reactor'' then
        newEffect AudioReactorEffect (setCamera (vec 0 0 40) (vec 0 0 0) m)
      else if mode = ''multiverse'' then
        newEffect MultiverseEffect (setCamera (vec 0 0 50) (vec 0 0 0) m)
      else m)"

definition switchMode_part000 ::
  "string \<Rightarrow> bool \<Rightarrow> manager \<Rightarrow> completion \<times> manager" where
  "switchMode_part000 mode releaseThrows m =
     (let m1 = (case currentEffect m of
                  Some e \<Rightarrow>
                    (case effect_dispose e releaseThrows m of
                       (Throw, m') \<Rightarrow> m'\<lparr>console := console m' @ [''Error disposing effect:'']\<rparr>
                     | (Normal, m') \<Rightarrow> m')
                | None \<Rightarrow> m)
      in (Normal, modeCases_part000 mode (resetCamera m1)))"

datatype revision = Visualizer_js | Part000

definition switchMode_of ::
  "revision \<Rightarrow> string \<Rightarrow> bool \<Rightarrow> manager \<Rightarrow> completion \<times> manager" where
  "switchMode_of rv =
     (case rv of Visualizer_js \<Rightarrow> switchMode | Part000 \<Rightarrow> switchMode_part000)"

definition modes_of :: "revision \<Rightarrow> string list" where
  "modes_of rv =
     (case rv of
        Visualizer_js \<Rightarrow> [''cosmic'', ''wave'', ''light'', ''fireworks'', ''lightning'']
      | Part000 \<Rightarrow> [''cosmic'', ''wave'', ''light'', ''fireworks'', ''lightning'',
                    ''reactor'', ''multiverse''])"

text \<open>
  What \<open>update\<close> of an effect does to the shared scene: the fireworks and the lightning
  storm sway the scene, the other effects write to their own objects only.
\<close>

definition effect_update :: "effect \<Rightarrow> real \<Rightarrow> audioBands \<Rightarrow> manager \<Rightarrow> manager" where
  "effect_update e time audioData m =
     (let s = scene m;
          s' = (case e_kind e of
                  FireworksEffect \<Rightarrow> s\<lparr>rotation_y := sin (time * 0.2) * 0.05\<rparr>
                | LightningStormEffect \<Rightarrow>
                    s\<lparr>rotation_z := sin (time * 0.1) * 0.05,
                      rotation_y := sin (time * 0.05) * 0.1\<rparr>
                | _ \<Rightarrow> s)
      in m\<lparr>scene := s', calls := calls m @ [Updated (e_group e)]\<rparr>)"

text \<open>
  \<open>animate\<close>, one frame: \<open>now\<close> is the reading of \<open>performance.now()\<close> and \<open>spectrum\<close>
  what the analyser holds.
\<close>

definition animate ::
  "real \<Rightarrow> byte list \<Rightarrow> audio_globals \<times> manager \<Rightarrow> audio_globals \<times> manager" where
  "animate now spectrum gm =
     (let time = now * 0.001;
          (audioData, g') = getAudioData (fst gm) spectrum time
      in (g', case currentEffect (snd gm) of
                Some e \<Rightarrow> effect_update e time audioData (snd gm)
              | None \<Rightarrow> snd gm))"

text \<open>
  The constructor of the manager, up to its first frame: an empty scene, the camera at
  (0, 5, 15) turned to the origin, no effect, and then \<open>switchMode('cosmic')\<close>.
\<close>

definition emptyManager :: manager where
  "emptyManager =
     \<lparr> scene = \<lparr> children = [], fog = None, rotation_y = 0, rotation_z = 0 \<rparr>,
       camera = \<lparr> cam_position = vec 0 5 15, cam_lookAt = vec 0 0 0 \<rparr>,
       currentEffect = None, nextObject = 0, calls = [], console = [] \<rparr>"

definition newManager :: "revision \<Rightarrow> manager" where
  "newManager rv = snd (switchMode_of rv ''cosmic'' False emptyManager)"

text \<open>
  What happens to the running program: a click on a mode button with the token of the
  button, where the flag says whether the release of resources in \<open>dispose\<close> raises; a
  frame; the two steps of \<open>startAudio\<close>. An exception that leaves \<open>switchMode\<close> ends the
  click handler and the program goes on in the state reached.
\<close>

datatype event =
  SwitchMode string bool
  | Animate real "byte list"
  | StartAudioBegin
  | StartAudioGranted

fun step :: "revision \<Rightarrow> audio_globals \<times> manager \<Rightarrow> event \<Rightarrow> audio_globals \<times> manager" where
  "step rv (g, m) (SwitchMode mode releaseThrows) =
     (g, snd (switchMode_of rv mode releaseThrows m))"
| "step rv (g, m) (Animate now spectrum) = animate now spectrum (g, m)"
| "step rv (g, m) StartAudioBegin = (startAudio_begin g, m)"
| "step rv (g, m) StartAudioGranted = (startAudio_granted g, m)"

definition run :: "revision \<Rightarrow> event list \<Rightarrow> audio_globals \<times> manager" where
  "run rv evs = foldl (step rv) (initial_globals, newManager rv) evs"

text \<open>An effect is disposed once \<open>dispose\<close> has been called on it.\<close>

definition disposed :: "manager \<Rightarrow> nat \<Rightarrow> bool" where
  "disposed m g \<longleftrightarrow> Disposed g \<in> set (calls m)"

text \<open>
  The call history has an update of an effect after the disposal of that effect.
\<close>

fun update_after_dispose :: "call list \<Rightarrow> bool" where
  "update_after_dispose [] = False"
| "update_after_dispose (Disposed g # cs) =
     (Updated g \<in> set cs \<or> update_after_dispose cs)"
| "update_after_dispose (_ # cs) = update_after_dispose cs"

text \<open>
  What holds of the manager in every state of a run: only the group of the current effect
  can be a child of the scene, and every object created so far has a number below the next
  one.
\<close>

definition mgr_inv :: "manager \<Rightarrow> bool" where
  "mgr_inv m \<longleftrightarrow>
     set (children (scene m)) \<subseteq> (case currentEffect m of Some e \<Rightarrow> {e_group e} | None \<Rightarrow> {}) \<and>
     distinct (children (scene m)) \<and>
     (\<forall>n k. Constructed n k \<in> set (calls m) \<longrightarrow> n < nextObject m) \<and>
     (\<forall>e. currentEffect m = Some e \<longrightarrow> e_group e < nextObject m)"

text \<open>The state between the disposal and the switch: nothing is attached.\<close>

definition detached :: "manager \<Rightarrow> bool" where
  "detached m \<longleftrightarrow> children (scene m) = [] \<and>
     (\<forall>n k. Constructed n k \<in> set (calls m) \<longrightarrow> n < nextObject m)"

text \<open>What a switch leaves attached: nothing, or the group it has just created.\<close>

definition switch_post :: "manager \<Rightarrow> manager \<Rightarrow> bool" where
  "switch_post m m' \<longleftrightarrow> mgr_inv m' \<and> set (children (scene m')) \<subseteq> {nextObject m} \<and> nextObject m \<le> nextObject m'"

text \<open>The calls that the \<open>switch\<close> statement adds: none, or one construction.\<close>

definition construct_calls :: "manager \<Rightarrow> manager \<Rightarrow> bool" where
  "construct_calls m m' \<longleftrightarrow>
     (\<exists>cs. calls m' = calls m @ cs \<and> (cs = [] \<or> (\<exists>k. cs = [Constructed (nextObject m) k])))"

text \<open>
  The runs in which every mode token has a case and, in \<open>AudioVisualizer/visualizer.js\<close>, no
  \<open>dispose\<close> raises.
\<close>

definition known_switch :: "revision \<Rightarrow> event \<Rightarrow> bool" where
  "known_switch rv ev =
     (case ev of
        SwitchMode mode releaseThrows \<Rightarrow>
          mode \<in> set (modes_of rv) \<and> (rv = Visualizer_js \<longrightarrow> \<not> releaseThrows)
      | _ \<Rightarrow> True)"

text \<open>
  What holds in such runs: no update has followed a disposal, the current effect is not
  disposed, and every disposed object has a number below the next one.
\<close>

definition live_inv :: "manager \<Rightarrow> bool" where
  "live_inv m \<longleftrightarrow>
     \<not> update_after_dispose (calls m) \<and>
     (\<forall>e. currentEffect m = Some e \<longrightarrow> \<not> disposed m (e_group e)) \<and>
     (\<forall>g. Disposed g \<in> set (calls m) \<longrightarrow> g < nextObject m)"

text \<open>The same between the disposal and the construction, where the current effect is stale.\<close>

definition sound_calls :: "manager \<Rightarrow> bool" where
  "sound_calls m \<longleftrightarrow>
     \<not> update_after_dispose (calls m) \<and> (\<forall>g. Disposed g \<in> set (calls m) \<longrightarrow> g < nextObject m)"
section \<open>The fireworks effect\<close>

text \<open>
  \<open>FireworksEffect\<close> of \<open>AudioVisualizer/visualizer.js\<close> (the second file of
  \<open>unnamed/part_000\<close> has the same class). Numbers are real numbers. The values that
  \<open>Math.random()\<close> returns are a sequence \<open>rnd\<close> given from outside, and the state counts
  how many of them have been taken; \<open>now\<close> is the reading of \<open>performance.now()\<close>. The band
  values are finite numbers, as \<open>getAudioData\<close> returns them. Colours and textures are left
  out, but not the random numbers drawn for them. The children of the group of the effect
  are numbered in the order of their creation.
\<close>

record bands =
  b_low :: real
  b_mid :: real
  b_high :: real

record rocket =
  r_pos :: vec3
  r_vel :: vec3
  r_targetY :: real
  r_hue :: real
  r_type :: string
  r_intensity :: real

record velocity =
  vel_x :: real
  vel_y :: real
  vel_z :: real
  vel_decay :: real

text \<open>
  An entry of \<open>this.particles\<close>: one burst, a \<open>Points\<close> mesh with the position buffer of
  its geometry, the key of the shared material it is drawn with, and the velocities.
\<close>

record burst =
  p_mesh :: nat
  p_material :: string
  p_positions :: "vec3 list"
  p_velocities :: "velocity list"
  p_age :: real
  p_lifespan :: real

record shockwave =
  s_mesh :: nat
  s_age :: real
  s_scale :: real
  s_opacity :: real

record fireworks =
  fw_children :: "nat list"
  particles :: "burst list"
  rockets :: "rocket list"
  shockwaves :: "shockwave list"
  lastLaunchTime :: real
  materialOpacity :: "string \<Rightarrow> real"
  fw_nextObject :: nat
  randomCount :: nat
  sceneRotationY :: real

text \<open>
  The effect after its constructor: the group holds the floor and the stars, and \<open>init\<close> has
  drawn four random numbers for each of the 3000 stars. The four materials \<open>dot\<close>,
  \<open>heart\<close>, \<open>star\<close> and \<open>leaf\<close> are opaque.
\<close>

definition newFireworks :: fireworks where
  "newFireworks =
     \<lparr> fw_children = [0, 1], particles = [], rockets = [], shockwaves = [],
       lastLaunchTime = 0, materialOpacity = (\<lambda>key. 1), fw_nextObject = 2,
       randomCount = 12000, sceneRotationY = 0 \<rparr>"

definition vadd :: "vec3 \<Rightarrow> vec3 \<Rightarrow> vec3" where
  "vadd a b = \<lparr> v_x = v_x a + v_x b, v_y = v_y a + v_y b, v_z = v_z a + v_z b \<rparr>"

text \<open>\<open>launchRocket\<close> draws five random numbers: x, z, the target height, the hue, the speed.\<close>

definition launchRocket :: "(nat \<Rightarrow> real) \<Rightarrow> string \<Rightarrow> real \<Rightarrow> fireworks \<Rightarrow> fireworks" where
  "launchRocket rnd type intensity st =
     (let k = randomCount st;
          x = (rnd k - 0.5) * 60;
          z = (rnd (k + 1) - 0.5) * 30 - 20;
          targetY = 25 + rnd (k + 2) * 15;
          hue = rnd (k + 3)
      in st\<lparr>rockets := rockets st @
                [\<lparr> r_pos = vec x (- 5) z, r_vel = vec 0 (0.8 + rnd (k + 4) * 0.2) 0,
                   r_targetY = targetY, r_hue = hue, r_type = type,
                   r_intensity = intensity \<rparr>],
            randomCount := k + 5\<rparr>)"

text \<open>
  The velocity that \<open>explode\<close> gives to particle \<open>i\<close>, where \<open>k\<close> random numbers have been
  taken before the particle. Each particle takes five: one for its colour, one for the
  speed, two for the shape and one for the decay.
\<close>

definition burstVelocity ::
  "(nat \<Rightarrow> real) \<Rightarrow> nat \<Rightarrow> string \<Rightarrow> real \<Rightarrow> nat \<Rightarrow> velocity" where
  "burstVelocity rnd k type intensity i =
     (let speed = (0.3 + rnd (k + 1) * 0.5) * (1 + intensity);
          decay = rnd (k + 4) * 0.01 + 0.005
      in if type = ''heart'' then
           (let t = rnd (k + 2) * pi * 2
            in \<lparr> vel_x = (16 * sin t ^ 3) * 0.05,
                 vel_y = (13 * cos t - 5 * cos (2 * t) - 2 * cos (3 * t) - cos (4 * t)) * 0.05,
                 vel_z = (rnd (k + 3) - 0.5) * 0.5, vel_decay = decay \<rparr>)
         else if type = ''star'' then
           (let angle = (real i / 5) * pi * 2;
                r = (if rnd (k + 2) < 0.5 then 1 else 0.4)
            in \<lparr> vel_x = cos angle * r * speed, vel_y = sin angle * r * speed,
                 vel_z = (rnd (k + 3) - 0.5) * speed, vel_decay = decay \<rparr>)
         else
           (let theta = rnd (k + 2) * pi * 2;
                phi = arccos (rnd (k + 3) * 2 - 1)
            in \<lparr> vel_x = sin phi * cos theta * speed, vel_y = sin phi * sin theta * speed,
                 vel_z = cos phi * speed, vel_decay = decay \<rparr>))"

definition createShockwave :: "vec3 \<Rightarrow> real \<Rightarrow> fireworks \<Rightarrow> fireworks" where
  "createShockwave pos hue st =
     (let mesh = fw_nextObject st
      in st\<lparr>fw_children := fw_children st @ [mesh],
            shockwaves := shockwaves st @
              [\<lparr> s_mesh = mesh, s_age = 0, s_scale = 1, s_opacity = 0.8 \<rparr>],
            fw_nextObject := Suc mesh\<rparr>)"

text \<open>
  \<open>explode\<close>. The material is \<open>this.materials[type] || this.materials.dot\<close>. The rockets of
  the program carry an intensity of 0.3 or more, so the particle count is not negative.
\<close>

definition particleCount :: "real \<Rightarrow> nat" where
  "particleCount intensity = 150 + nat \<lfloor>intensity * 200\<rfloor>"

definition materialKey :: "string \<Rightarrow> string" where
  "materialKey type =
     (if type \<in> {''dot'', ''heart'', ''star'', ''leaf''} then type else ''dot'')"

definition explode ::
  "(nat \<Rightarrow> real) \<Rightarrow> vec3 \<Rightarrow> real \<Rightarrow> string \<Rightarrow> real \<Rightarrow> fireworks \<Rightarrow> fireworks" where
  "explode rnd pos hue type intensity st =
     (let n = particleCount intensity;
          k = randomCount st;
          positions = replicate n pos;
          velocities = map (\<lambda>i. burstVelocity rnd (k + 5 * i) type intensity i) [0..<n];
          points = fw_nextObject st
      in createShockwave pos hue
           (st\<lparr>fw_children := fw_children st @ [points],
               particles := particles st @
                 [\<lparr> p_mesh = points, p_material = materialKey type,
                    p_positions = positions, p_velocities = velocities,
                    p_age = 0, p_lifespan = 2.0 + intensity \<rparr>],
               fw_nextObject := Suc points,
               randomCount := k + 5 * n\<rparr>))"

text \<open>\<open>cond && Math.random() < p\<close>: the number is drawn only when the condition holds.\<close>

definition andRandomBelow ::
  "(nat \<Rightarrow> real) \<Rightarrow> bool \<Rightarrow> real \<Rightarrow> fireworks \<Rightarrow> bool \<times> fireworks" where
  "andRandomBelow rnd cond p st =
     (if cond then (rnd (randomCount st) < p, st\<lparr>randomCount := Suc (randomCount st)\<rparr>)
      else (False, st))"

text \<open>The launch at the head of \<open>update\<close>.\<close>

definition launchPhase :: "(nat \<Rightarrow> real) \<Rightarrow> real \<Rightarrow> bands \<Rightarrow> fireworks \<Rightarrow> fireworks" where
  "launchPhase rnd now audioData st =
     (if now - lastLaunchTime st > 100 then
        if b_low audioData > 0.45 then
          (launchRocket rnd ''heart'' (b_low audioData) st)\<lparr>lastLaunchTime := now\<rparr>
        else
          (let (midHit, st1) = andRandomBelow rnd (b_mid audioData > 0.4) 0.5 st
           in if midHit then
                (launchRocket rnd ''star'' (b_mid audioData) st1)\<lparr>lastLaunchTime := now\<rparr>
              else
                (let (highHit, st2) = andRandomBelow rnd (b_high audioData > 0.5) 0.4 st1
                 in if highHit then
                      (launchRocket rnd ''leaf'' (b_high audioData) st2)
                        \<lparr>lastLaunchTime := now\<rparr>
                    else if now - lastLaunchTime st2 > 1500 then
                      (launchRocket rnd ''dot'' 0.3 st2)\<lparr>lastLaunchTime := now\<rparr>
                    else st2))
      else st)"

text \<open>
  The loop over the rockets, from the last index down, and its body at index \<open>i\<close>. A
  rocket moves by its velocity and sways in x; the test for a trail draws a random number
  and does nothing else.
\<close>

definition moveRocket :: "real \<Rightarrow> nat \<Rightarrow> rocket \<Rightarrow> rocket" where
  "moveRocket time i r =
     (let p = vadd (r_pos r) (r_vel r)
      in r\<lparr>r_pos := p\<lparr>v_x := v_x p + sin (time * 10 + real i) * 0.05\<rparr>\<rparr>)"

definition reached :: "rocket \<Rightarrow> bool" where
  "reached r \<longleftrightarrow> v_y (r_pos r) \<ge> r_targetY r"

definition rocketStep :: "(nat \<Rightarrow> real) \<Rightarrow> real \<Rightarrow> nat \<Rightarrow> fireworks \<Rightarrow> fireworks" where
  "rocketStep rnd time i st =
     (let r = moveRocket time i (rockets st ! i);
          st1 = st\<lparr>rockets := (rockets st)[i := r], randomCount := Suc (randomCount st)\<rparr>
      in if reached r then
           (let st' = explode rnd (r_pos r) (r_hue r) (r_type r) (r_intensity r) st1
            in st'\<lparr>rockets := take i (rockets st') @ drop (Suc i) (rockets st')\<rparr>)
         else st1)"

fun rocketsLoop :: "(nat \<Rightarrow> real) \<Rightarrow> real \<Rightarrow> nat \<Rightarrow> fireworks \<Rightarrow> fireworks" where
  "rocketsLoop rnd time 0 st = st"
| "rocketsLoop rnd time (Suc i) st = rocketsLoop rnd time i (rocketStep rnd time i st)"

text \<open>
  One burst in the loop over \<open>this.particles\<close>, where \<open>k\<close> random numbers have been taken
  before: the burst ages, every particle moves by its velocity, and the velocity gets
  gravity, drag and, when the high band is above 0.3, three random numbers of turbulence.
\<close>

definition stepVelocity :: "(nat \<Rightarrow> real) \<Rightarrow> bool \<Rightarrow> nat \<Rightarrow> velocity \<Rightarrow> velocity" where
  "stepVelocity rnd turbulent k v =
     (let x = vel_x v * 0.98;
          y = (vel_y v - 0.01) * 0.98;
          z = vel_z v * 0.98
      in if turbulent then
           v\<lparr>vel_x := x + (rnd k - 0.5) * 0.02,
             vel_y := y + (rnd (k + 1) - 0.5) * 0.02,
             vel_z := z + (rnd (k + 2) - 0.5) * 0.02\<rparr>
         else v\<lparr>vel_x := x, vel_y := y, vel_z := z\<rparr>)"

definition stepBurst :: "(nat \<Rightarrow> real) \<Rightarrow> bool \<Rightarrow> nat \<Rightarrow> burst \<Rightarrow> burst" where
  "stepBurst rnd turbulent k p =
     (let n = length (p_velocities p)
      in p\<lparr>p_age := p_age p + 0.016,
           p_positions :=
             map (\<lambda>j. if j < n
                       then (let v = p_velocities p ! j
                             in vadd (p_positions p ! j) (vec (vel_x v) (vel_y v) (vel_z v)))
                       else p_positions p ! j)
               [0..<length (p_positions p)],
           p_velocities :=
             map (\<lambda>j. stepVelocity rnd turbulent (k + 3 * j) (p_velocities p ! j)) [0..<n]\<rparr>)"

text \<open>The opacity that the loop writes to the material of a burst.\<close>

definition alpha :: "burst \<Rightarrow> real" where
  "alpha p = 1.0 - p_age p / p_lifespan p"

text \<open>
  The body of the loop over the bursts at index \<open>i\<close>, and the loop from the last index
  down.
\<close>

definition particleStep :: "(nat \<Rightarrow> real) \<Rightarrow> bool \<Rightarrow> nat \<Rightarrow> fireworks \<Rightarrow> fireworks" where
  "particleStep rnd turbulent i st =
     (let p = stepBurst rnd turbulent (randomCount st) (particles st ! i);
          st1 = st\<lparr>particles := (particles st)[i := p],
                   randomCount := randomCount st
                     + (if turbulent then 3 * length (p_velocities p) else 0),
                   materialOpacity := (materialOpacity st)(p_material p := alpha p)\<rparr>
      in if p_age p \<ge> p_lifespan p then
           st1\<lparr>fw_children := remove1 (p_mesh p) (fw_children st1),
               particles := take i (particles st1) @ drop (Suc i) (particles st1)\<rparr>
         else st1)"

fun particlesLoop :: "(nat \<Rightarrow> real) \<Rightarrow> bool \<Rightarrow> nat \<Rightarrow> fireworks \<Rightarrow> fireworks" where
  "particlesLoop rnd turbulent 0 st = st"
| "particlesLoop rnd turbulent (Suc i) st =
     particlesLoop rnd turbulent i (particleStep rnd turbulent i st)"

text \<open>The loop over the shock waves, each with a material of its own.\<close>

definition stepShockwave :: "shockwave \<Rightarrow> shockwave" where
  "stepShockwave s =
     (let age = s_age s + 0.02
      in s\<lparr>s_age := age, s_scale := 1 + age * 20, s_opacity := 0.8 - age\<rparr>)"

definition shockwaveStep :: "nat \<Rightarrow> fireworks \<Rightarrow> fireworks" where
  "shockwaveStep i st =
     (let s = stepShockwave (shockwaves st ! i);
          st1 = st\<lparr>shockwaves := (shockwaves st)[i := s]\<rparr>
      in if s_age s > 0.8 then
           st1\<lparr>fw_children := remove1 (s_mesh s) (fw_children st1),
               shockwaves := take i (shockwaves st1) @ drop (Suc i) (shockwaves st1)\<rparr>
         else st1)"

fun shockwavesLoop :: "nat \<Rightarrow> fireworks \<Rightarrow> fireworks" where
  "shockwavesLoop 0 st = st"
| "shockwavesLoop (Suc i) st = shockwavesLoop i (shockwaveStep i st)"

text \<open>\<open>update\<close>, and its state after the loop over the rockets.\<close>

definition afterRockets ::
  "(nat \<Rightarrow> real) \<Rightarrow> real \<Rightarrow> real \<Rightarrow> bands \<Rightarrow> fireworks \<Rightarrow> fireworks" where
  "afterRockets rnd now time audioData st =
     (let st1 = launchPhase rnd now audioData st
      in rocketsLoop rnd time (length (rockets st1)) st1)"

definition update :: "(nat \<Rightarrow> real) \<Rightarrow> real \<Rightarrow> real \<Rightarrow> bands \<Rightarrow> fireworks \<Rightarrow> fireworks" where
  "update rnd now time audioData st =
     (let st2 = afterRockets rnd now time audioData st;
          st3 = particlesLoop rnd (b_high audioData > 0.3) (length (particles st2)) st2;
          st4 = shockwavesLoop (length (shockwaves st3)) st3
      in st4\<lparr>sceneRotationY := sin (time * 0.2) * 0.05\<rparr>)"





text \<open>
  What holds of the effect in every state that \<open>update\<close> reaches from \<open>newFireworks\<close>: the
  children of the group are distinct and numbered below the next object; the bursts have
  distinct meshes, which are children of the group, and an age from 0 up to, but not
  reaching, their lifespan; the mesh of a shock wave is not the mesh of a burst; the
  intensity of a rocket is not negative.
\<close>

definition fw_inv :: "fireworks \<Rightarrow> bool" where
  "fw_inv st \<longleftrightarrow>
     distinct (fw_children st) \<and> (\<forall>c\<in>set (fw_children st). c < fw_nextObject st) \<and>
     distinct (map p_mesh (particles st)) \<and>
     (\<forall>p\<in>set (particles st).
        p_mesh p \<in> set (fw_children st) \<and> 0 \<le> p_age p \<and> p_age p < p_lifespan p) \<and>
     (\<forall>s\<in>set (shockwaves st).
        s_mesh s < fw_nextObject st \<and> s_mesh s \<notin> p_mesh ` set (particles st)) \<and>
     (\<forall>r\<in>set (rockets st). 0 \<le> r_intensity r)"

text \<open>States and bands to evaluate \<open>update\<close> at: bursts of one particle, and silence.\<close>

definition sampleBurst :: "nat \<Rightarrow> string \<Rightarrow> real \<Rightarrow> real \<Rightarrow> burst" where
  "sampleBurst mesh key y age =
     \<lparr> p_mesh = mesh, p_material = key, p_positions = [vec 0 y 0],
       p_velocities = [\<lparr> vel_x = 0, vel_y = - 0.45, vel_z = 0, vel_decay = 0.01 \<rparr>],
       p_age = age, p_lifespan = 2.3 \<rparr>"

definition sampleFireworks :: "burst list \<Rightarrow> fireworks" where
  "sampleFireworks ps =
     \<lparr> fw_children = [0, 1] @ map p_mesh ps, particles = ps, rockets = [], shockwaves = [],
       lastLaunchTime = 0, materialOpacity = (\<lambda>key. 1), fw_nextObject = 10,
       randomCount = 12000, sceneRotationY = 0 \<rparr>"

definition silence :: bands where
  "silence = \<lparr> b_low = 0, b_mid = 0, b_high = 0 \<rparr>"

text \<open>The rockets of a list after their move in a frame, each with its index.\<close>

definition movedRockets :: "real \<Rightarrow> rocket list \<Rightarrow> rocket list" where
  "movedRockets time rs = map (\<lambda>(j, r). moveRocket time j r) (enumerate 0 rs)"

text \<open>
  The shapes of a burst, as properties of the velocity of particle \<open>j\<close>. Heart: the x and y
  components lie on the heart curve, scaled by 0.05, and the depth is at most 0.25. Star:
  the x and y components lie on one of five rays, at the speed or at 0.4 of it. Sphere:
  the velocity has the length of the speed. The speed is from 0.3 to 0.8 times one plus the
  intensity.
\<close>

definition heartShaped :: "velocity \<Rightarrow> bool" where
  "heartShaped v \<longleftrightarrow>
     (\<exists>t. vel_x v = 16 * sin t ^ 3 * 0.05 \<and>
          vel_y v = (13 * cos t - 5 * cos (2 * t) - 2 * cos (3 * t) - cos (4 * t)) * 0.05) \<and>
     \<bar>vel_z v\<bar> \<le> 0.25"

definition starShaped :: "real \<Rightarrow> nat \<Rightarrow> velocity \<Rightarrow> bool" where
  "starShaped intensity j v \<longleftrightarrow>
     (\<exists>s d. 0.3 * (1 + intensity) \<le> s \<and> s < 0.8 * (1 + intensity) \<and> (d = s \<or> d = 0.4 * s) \<and>
        vel_x v = cos (2 * pi * real (j mod 5) / 5) * d \<and>
        vel_y v = sin (2 * pi * real (j mod 5) / 5) * d \<and>
        \<bar>vel_z v\<bar> \<le> s / 2)"

definition spherical :: "real \<Rightarrow> velocity \<Rightarrow> bool" where
  "spherical intensity v \<longleftrightarrow>
     (\<exists>s. 0.3 * (1 + intensity) \<le> s \<and> s < 0.8 * (1 + intensity) \<and>
        (vel_x v)\<^sup>2 + (vel_y v)\<^sup>2 + (vel_z v)\<^sup>2 = s\<^sup>2)"

definition shaped :: "string \<Rightarrow> real \<Rightarrow> nat \<Rightarrow> velocity \<Rightarrow> bool" where
  "shaped type intensity j v =
     (if type = ''heart'' then heartShaped v
      else if type = ''star'' then starShaped intensity j v
      else spherical intensity v)"

text \<open>
  A burst made from a rocket that has reached its target height: all particles start at
  the position of the rocket, their number is 150 plus the floor of 200 times the intensity,
  and their velocities have the shape of the type of the rocket.
\<close>

definition burstFrom :: "rocket \<Rightarrow> burst \<Rightarrow> bool" where
  "burstFrom r q \<longleftrightarrow>
     reached r \<and>
     p_positions q = replicate (150 + nat \<lfloor>r_intensity r * 200\<rfloor>) (r_pos r) \<and>
     length (p_velocities q) = 150 + nat \<lfloor>r_intensity r * 200\<rfloor> \<and>
     (\<forall>j < length (p_velocities q).
        shaped (r_type r) (r_intensity r) j (p_velocities q ! j)) \<and>
     p_age q = 0 \<and> p_lifespan q = 2 + r_intensity r"

text \<open>A rocket that reaches its target height with its next move.\<close>

definition sampleRocket :: rocket where
  "sampleRocket =
     \<lparr> r_pos = vec 0 24.5 (- 20), r_vel = vec 0 0.9 0, r_targetY = 25, r_hue = 0.5,
       r_type = ''heart'', r_intensity = 0.5 \<rparr>"

text \<open>
  What the head of \<open>update\<close> leaves when it launches a rocket of a type and an intensity: the
  rocket is the last of the list, it starts at the height of -5 and rises by 0.8 up to 1 a
  frame to a target height from 25 up to 40, and the time of the launch is recorded. And
  what it leaves when it launches none.
\<close>

definition launched :: "fireworks \<Rightarrow> real \<Rightarrow> string \<Rightarrow> real \<Rightarrow> fireworks \<Rightarrow> bool" where
  "launched st now type intensity st1 \<longleftrightarrow>
     (\<exists>r. rockets st1 = rockets st @ [r] \<and> r_type r = type \<and> r_intensity r = intensity \<and>
        v_y (r_pos r) = - 5 \<and> v_x (r_vel r) = 0 \<and> 0.8 \<le> v_y (r_vel r) \<and> v_y (r_vel r) < 1 \<and>
        v_z (r_vel r) = 0 \<and> 25 \<le> r_targetY r \<and> r_targetY r < 40) \<and>
     lastLaunchTime st1 = now"

definition notLaunched :: "fireworks \<Rightarrow> fireworks \<Rightarrow> bool" where
  "notLaunched st st1 \<longleftrightarrow> rockets st1 = rockets st \<and> lastLaunchTime st1 = lastLaunchTime st"

text \<open>Bands that are all above their thresholds.\<close>

definition loud :: bands where
  "loud = \<lparr> b_low = 0.9, b_mid = 0.9, b_high = 0.9 \<rparr>"
section \<open>Properties of the band extraction\<close>

subsection \<open>The band bounds\<close>

lemma lowBound_of_div: "lowBound_of n = n div 10"
proof -
  have "real n * 0.1 = real n / 10" by simp
  then have "\<lfloor>real n * 0.1\<rfloor> = \<lfloor>real n / real 10\<rfloor>" by simp
  also have "\<dots> = int (n div 10)" by (simp only: floor_divide_of_nat_eq)
  finally show ?thesis by (simp add: lowBound_of_def)
qed

lemma midBound_of_div: "midBound_of n = n div 2"
proof -
  have "real n * 0.5 = real n / 2" by simp
  then have "\<lfloor>real n * 0.5\<rfloor> = \<lfloor>real n / real 2\<rfloor>" by simp
  also have "\<dots> = int (n div 2)" by (simp only: floor_divide_of_nat_eq)
  finally show ?thesis by (simp add: midBound_of_def)
qed

lemma lowBand_eq: "lowBand n = {0 ..< n div 10}"
  using lowBound_of_div [of n] by (simp add: lowBand_def lowBound_of_def mult.commute)

lemma midBand_eq: "midBand n = {n div 10 ..< n div 2}"
  using lowBound_of_div [of n] midBound_of_div [of n]
  by (simp add: midBand_def lowBound_of_def midBound_of_def mult.commute)

lemma highBand_eq: "highBand n = {n div 2 ..< n}"
  using midBound_of_div [of n] by (simp add: highBand_def midBound_of_def mult.commute)

lemma bands_tile:
  "lowBand n \<union> midBand n \<union> highBand n = {0..<n} \<and> lowBand n \<inter> midBand n = {} \<and>
   lowBand n \<inter> highBand n = {} \<and> midBand n \<inter> highBand n = {}"
  unfolding lowBand_eq midBand_eq highBand_eq by auto

subsection \<open>The accumulation loop\<close>

text \<open>
  The loop from index \<open>i\<close> on adds to each sum the bins of its branch. The three index sets
  are written with the tests of the \<open>if\<close> chain, the invariant is proved by induction on the
  number of iterations left.
\<close>

lemma band_set_step:
  "i < n \<Longrightarrow> {k. i \<le> k \<and> k < n \<and> P k} =
     (if P i then insert i {k. Suc i \<le> k \<and> k < n \<and> P k}
      else {k. Suc i \<le> k \<and> k < n \<and> P k})"
  by (auto simp: Suc_le_eq le_less)

lemma sumBands_fin:
  assumes "bufferLength \<le> length arr"
  shows "sumBands arr bufferLength lb mb i (Fin a, Fin b, Fin c) =
     (Fin (a + (\<Sum>k | i \<le> k \<and> k < bufferLength \<and> k < lb. binval arr k)),
      Fin (b + (\<Sum>k | i \<le> k \<and> k < bufferLength \<and> (\<not> k < lb \<and> k < mb). binval arr k)),
      Fin (c + (\<Sum>k | i \<le> k \<and> k < bufferLength \<and> (\<not> k < lb \<and> \<not> k < mb). binval arr k)))"
proof (induction "bufferLength - i" arbitrary: i a b c)
  case 0
  then have "\<not> i < bufferLength" by simp
  then have e: "\<And>P. {k. i \<le> k \<and> k < bufferLength \<and> P k} = {}" by auto
  from \<open>\<not> i < bufferLength\<close> show ?case
    by (subst sumBands.simps) (simp add: e)
next
  case (Suc d)
  then have lt: "i < bufferLength" and d: "d = bufferLength - Suc i" by simp_all
  have v: "js_div (js_index arr i) (Fin 255) = Fin (binval arr i)"
    using lt assms by (simp add: js_index_def binval_def)
  note st = band_set_step [OF lt, of "\<lambda>k. k < lb"]
    band_set_step [OF lt, of "\<lambda>k. \<not> k < lb \<and> k < mb"]
    band_set_step [OF lt, of "\<lambda>k. \<not> k < lb \<and> \<not> k < mb"]
  show ?case
    apply (subst sumBands.simps)
    apply (simp only: lt if_True Let_def v)
    apply (cases "i < lb")
     apply (simp add: Suc.hyps(1) [OF d] st)
    apply (cases "i < mb")
     apply (simp_all add: Suc.hyps(1) [OF d] st)
    done
qed

lemma band_sets:
  "{k. k < n \<and> k < n div 10} = {0 ..< (n::nat) div 10}"
  "{k. k < n \<and> \<not> k < n div 10 \<and> k < n div 2} = {n div 10 ..< n div 2}"
  "{k. k < n \<and> \<not> k < n div 10 \<and> \<not> k < n div 2} = {n div 2 ..< n}"
  by auto

lemma sumBands_bands:
  assumes "n \<le> length arr"
  shows "sumBands arr n (lowBound_of n) (midBound_of n) 0 (Fin 0, Fin 0, Fin 0) =
    (Fin (\<Sum>k\<in>lowBand n. binval arr k), Fin (\<Sum>k\<in>midBand n. binval arr k),
     Fin (\<Sum>k\<in>highBand n. binval arr k))"
  unfolding lowBand_eq midBand_eq highBand_eq lowBound_of_div midBound_of_div
  by (simp add: sumBands_fin [OF assms] band_sets)

lemma binval_mean: "sum (binval arr) S / real (card S) = bandMean arr S / 255"
  by (simp add: binval_def bandMean_def sum_divide_distrib mult.commute)

lemma bandMean_range:
  assumes "finite S" "S \<noteq> {}"
  shows "0 \<le> bandMean arr S / 255 \<and> bandMean arr S / 255 \<le> 1"
proof -
  have c: "0 < card S" using assms by (simp add: card_gt_0_iff)
  have b: "\<And>k. real (unat (arr ! k)) \<le> 255"
  proof -
    fix k
    have "unat (arr ! k) < 2 ^ 8" by (rule order_less_le_trans [OF unsigned_less]) simp
    then have "unat (arr ! k) \<le> 255" by simp
    then have "real (unat (arr ! k)) \<le> real 255" by (simp only: of_nat_le_iff)
    then show "real (unat (arr ! k)) \<le> 255" by (simp only: of_nat_numeral)
  qed
  have "(\<Sum>k\<in>S. real (unat (arr ! k))) \<le> (\<Sum>k\<in>S. 255)" by (rule sum_mono) (rule b)
  then have u: "(\<Sum>k\<in>S. real (unat (arr ! k))) \<le> 255 * real (card S)" by simp
  have l: "0 \<le> (\<Sum>k\<in>S. real (unat (arr ! k)))"
    by (rule sum_nonneg) (rule of_nat_0_le_iff)
  from c l u show ?thesis by (simp add: bandMean_def divide_le_eq)
qed

lemma getByteFrequencyData_same:
  "length spectrum = length arr \<Longrightarrow> getByteFrequencyData spectrum arr = spectrum"
  by (simp add: getByteFrequencyData_def)

lemma length_getByteFrequencyData: "length (getByteFrequencyData spectrum arr) = length arr"
  by (simp add: getByteFrequencyData_def)

lemma configured_globals_eq:
  "configured_globals =
     \<lparr> analyser = Some \<lparr> a_fftSize = 2048, a_smoothingTimeConstant = 0.85 \<rparr>,
       dataArray = replicate 1024 0, isAudioActive = True \<rparr>"
  by (simp add: configured_globals_def startAudio_granted_def startAudio_begin_def
      initial_globals_def CONFIG_def frequencyBinCount_def)

subsection \<open>Active mode\<close>

text \<open>
  Claim C1. With audio active, the bins \<open>0 ..< n\<close> of the analyser fall into three bands
  that follow one another without a gap or an overlap, cut at \<open>\<lfloor>0.1 n\<rfloor>\<close> and
  \<open>\<lfloor>0.5 n\<rfloor>\<close>; whatever the bytes of the bins are, the value returned for a band is the
  arithmetic mean of its bins divided by 255, a number between 0 and 1. The analyser has at
  least ten bins, as every analyser of the program has: it has 1024.
\<close>

theorem getAudioData_bands:
  assumes "isAudioActive g" and "analyser g = Some a" and "n = frequencyBinCount a"
    and "length (dataArray g) = n" and "length bins = n" and "10 \<le> n"
  shows "lowBand n = {0 ..< n div 10} \<and> midBand n = {n div 10 ..< n div 2} \<and>
     highBand n = {n div 2 ..< n} \<and>
     lowBand n \<union> midBand n \<union> highBand n = {0..<n} \<and>
     lowBand n \<inter> midBand n = {} \<and> lowBand n \<inter> highBand n = {} \<and>
     midBand n \<inter> highBand n = {} \<and>
     low (fst (getAudioData g bins t)) = Fin (bandMean bins (lowBand n) / 255) \<and>
     mid (fst (getAudioData g bins t)) = Fin (bandMean bins (midBand n) / 255) \<and>
     high (fst (getAudioData g bins t)) = Fin (bandMean bins (highBand n) / 255) \<and>
     in_unit (low (fst (getAudioData g bins t))) \<and>
     in_unit (mid (fst (getAudioData g bins t))) \<and>
     in_unit (high (fst (getAudioData g bins t)))"
proof -
  have arr: "getByteFrequencyData bins (dataArray g) = bins"
    using assms by (simp add: getByteFrequencyData_same)
  have pos: "0 < n div 10" "0 < n div 2 - n div 10" "0 < n - n div 2"
    using \<open>10 \<le> n\<close> by arith+
  have cards: "card (lowBand n) = n div 10" "card (midBand n) = n div 2 - n div 10"
    "card (highBand n) = n - n div 2"
    by (simp_all add: lowBand_eq midBand_eq highBand_eq)
  have ne: "lowBand n \<noteq> {}" "midBand n \<noteq> {}" "highBand n \<noteq> {}"
    using pos cards by (metis card.empty less_numeral_extra(3))+
  have fin: "finite (lowBand n)" "finite (midBand n)" "finite (highBand n)"
    by (simp_all add: lowBand_eq midBand_eq highBand_eq)
  have sb: "sumBands bins n (lowBound_of n) (midBound_of n) 0 (Fin 0, Fin 0, Fin 0) =
      (Fin (sum (binval bins) (lowBand n)), Fin (sum (binval bins) (midBand n)),
       Fin (sum (binval bins) (highBand n)))"
    by (rule sumBands_bands) (simp add: \<open>length bins = n\<close>)
  have res0: "fst (getAudioData g bins t) =
      \<lparr> low = js_div (Fin (sum (binval bins) (lowBand n))) (Fin (real (lowBound_of n))),
        mid = js_div (Fin (sum (binval bins) (midBand n)))
                (Fin (real (midBound_of n - lowBound_of n))),
        high = js_div (Fin (sum (binval bins) (highBand n)))
                (Fin (real (n - midBound_of n))) \<rparr>"
    using assms(1,2) by (simp add: getAudioData_def arr Let_def sb flip: assms(3))
  have dl: "js_div (Fin (sum (binval bins) (lowBand n))) (Fin (real (lowBound_of n))) =
      Fin (bandMean bins (lowBand n) / 255)"
    using pos(1) by (simp add: lowBound_of_div flip: binval_mean cards(1))
  have dm: "js_div (Fin (sum (binval bins) (midBand n)))
        (Fin (real (midBound_of n - lowBound_of n))) =
      Fin (bandMean bins (midBand n) / 255)"
    using pos(2)
    unfolding lowBound_of_div midBound_of_div binval_mean [symmetric] cards(2) by simp
  have dh: "js_div (Fin (sum (binval bins) (highBand n))) (Fin (real (n - midBound_of n))) =
      Fin (bandMean bins (highBand n) / 255)"
    using pos(3)
    unfolding lowBound_of_div midBound_of_div binval_mean [symmetric] cards(3) by simp
  have res: "fst (getAudioData g bins t) =
      \<lparr> low = Fin (bandMean bins (lowBand n) / 255),
        mid = Fin (bandMean bins (midBand n) / 255),
        high = Fin (bandMean bins (highBand n) / 255) \<rparr>"
    unfolding res0 dl dm dh ..
  show ?thesis
    using bands_tile [of n] bandMean_range [OF fin(1) ne(1), of bins]
      bandMean_range [OF fin(2) ne(2), of bins] bandMean_range [OF fin(3) ne(3), of bins]
    by (simp add: res lowBand_eq [symmetric] midBand_eq [symmetric] highBand_eq [symmetric])
qed

text \<open>
  The theorem at the analyser that \<open>startAudio\<close> configures, with every bin at 255: the
  bands are cut at 102 and 512 and each of them has the value 1.
\<close>

theorem getAudioData_bands_witness:
  "isAudioActive configured_globals \<and>
   analyser configured_globals =
     Some \<lparr> a_fftSize = 2048, a_smoothingTimeConstant = 0.85 \<rparr> \<and>
   length (dataArray configured_globals) = 1024 \<and>
   length (replicate 1024 (255::byte)) = 1024 \<and>
   lowBand 1024 = {0 ..< 102} \<and> midBand 1024 = {102 ..< 512} \<and>
   highBand 1024 = {512 ..< 1024} \<and>
   low (fst (getAudioData configured_globals (replicate 1024 255) 0)) = Fin 1 \<and>
   mid (fst (getAudioData configured_globals (replicate 1024 255) 0)) = Fin 1 \<and>
   high (fst (getAudioData configured_globals (replicate 1024 255) 0)) = Fin 1"
proof -
  let ?a = "\<lparr> a_fftSize = 2048, a_smoothingTimeConstant = 0.85 \<rparr>"
  have h: "isAudioActive configured_globals" "analyser configured_globals = Some ?a"
    "1024 = frequencyBinCount ?a" "length (dataArray configured_globals) = 1024"
    "length (replicate 1024 (255::byte)) = 1024" "(10::nat) \<le> 1024"
    by (simp_all add: configured_globals_eq frequencyBinCount_def)
  have m: "\<And>lo hi. lo < hi \<Longrightarrow> hi \<le> 1024 \<Longrightarrow>
      bandMean (replicate 1024 (255::byte)) {lo ..< hi} / 255 = 1"
    by (simp add: bandMean_def)
  show ?thesis
    using h(1,2,4,5) getAudioData_bands [OF h, of 0]
    by (simp add: m)
qed

subsection \<open>The fixed configuration\<close>

lemma snd_getAudioData:
  "snd (getAudioData g spectrum t) =
     (if isAudioActive g \<and> analyser g \<noteq> None
      then g\<lparr>dataArray := getByteFrequencyData spectrum (dataArray g)\<rparr> else g)"
  by (auto simp: getAudioData_def Let_def split: prod.splits option.splits bool.splits)

lemma reachable_audio_inv: "reachable_globals g \<Longrightarrow> audio_inv g"
proof (induction rule: reachable_globals.induct)
  case rg_init
  show ?case by (simp add: audio_inv_def initial_globals_def)
next
  case (rg_begin g)
  then show ?case by (auto simp: audio_inv_def startAudio_begin_def CONFIG_def)
next
  case (rg_granted g)
  then show ?case
    by (auto simp: audio_inv_def startAudio_granted_def frequencyBinCount_def
        split: option.splits)
next
  case (rg_frame g spectrum time)
  then show ?case
    by (auto simp: audio_inv_def snd_getAudioData length_getByteFrequencyData)
qed

lemma demo_getAudioData:
  "\<not> (isAudioActive g \<and> analyser g \<noteq> None) \<Longrightarrow>
     getAudioData g spectrum t = (demoBands t, g)"
  by (auto simp: getAudioData_def split: option.splits bool.splits)

lemma active_getAudioData_finite:
  assumes "isAudioActive g" "analyser g = Some a" "a_fftSize a = 2048"
    "length (dataArray g) = 1024"
  shows "is_finite (low (fst (getAudioData g spectrum t))) \<and>
         is_finite (mid (fst (getAudioData g spectrum t))) \<and>
         is_finite (high (fst (getAudioData g spectrum t)))"
proof -
  have n: "frequencyBinCount a = 1024" using assms(3) by (simp add: frequencyBinCount_def)
  have len: "1024 \<le> length (getByteFrequencyData spectrum (dataArray g))"
    by (simp add: length_getByteFrequencyData assms(4))
  show ?thesis
    using assms(1,2)
    by (simp add: getAudioData_def n Let_def sumBands_fin [OF len]
        lowBound_of_div midBound_of_div)
qed

text \<open>
  Claim C10. The FFT size is fixed at 2048, so an analyser of the program has 1024 bins and
  the three divisors of \<open>getAudioData\<close> are 102, 410 and 512, none of them zero. In every
  state of the audio variables that the program reaches, active or not, and for every
  spectrum and time, the three bands returned are finite numbers.
\<close>

theorem band_divisors_positive:
  assumes "reachable_globals g"
  shows "(\<forall>a. analyser g = Some a \<longrightarrow>
            fftSize CONFIG = 2048 \<and> frequencyBinCount a = 1024 \<and>
            lowBound_of (frequencyBinCount a) = 102 \<and>
            midBound_of (frequencyBinCount a) - lowBound_of (frequencyBinCount a) = 410 \<and>
            frequencyBinCount a - midBound_of (frequencyBinCount a) = 512) \<and>
         is_finite (low (fst (getAudioData g spectrum t))) \<and>
         is_finite (mid (fst (getAudioData g spectrum t))) \<and>
         is_finite (high (fst (getAudioData g spectrum t)))"
proof -
  have inv: "audio_inv g" using assms by (rule reachable_audio_inv)
  have d: "\<forall>a. analyser g = Some a \<longrightarrow>
            fftSize CONFIG = 2048 \<and> frequencyBinCount a = 1024 \<and>
            lowBound_of (frequencyBinCount a) = 102 \<and>
            midBound_of (frequencyBinCount a) - lowBound_of (frequencyBinCount a) = 410 \<and>
            frequencyBinCount a - midBound_of (frequencyBinCount a) = 512"
    using inv
    by (simp add: audio_inv_def frequencyBinCount_def lowBound_of_div midBound_of_div
        CONFIG_def)
  have f: "is_finite (low (fst (getAudioData g spectrum t))) \<and>
         is_finite (mid (fst (getAudioData g spectrum t))) \<and>
         is_finite (high (fst (getAudioData g spectrum t)))"
  proof (cases "isAudioActive g \<and> analyser g \<noteq> None")
    case True
    then obtain a where "analyser g = Some a" by auto
    with True inv show ?thesis
      by (intro active_getAudioData_finite [of g a]) (simp_all add: audio_inv_def)
  next
    case False
    then show ?thesis by (simp add: demo_getAudioData demoBands_def)
  qed
  from d f show ?thesis by blast
qed

text \<open>The theorem at the state after one granted \<open>startAudio\<close>.\<close>

theorem band_divisors_positive_witness:
  "reachable_globals configured_globals \<and>
   analyser configured_globals =
     Some \<lparr> a_fftSize = 2048, a_smoothingTimeConstant = 0.85 \<rparr> \<and>
   lowBound_of 1024 = 102 \<and> midBound_of 1024 - lowBound_of 1024 = 410 \<and>
   1024 - midBound_of 1024 = 512 \<and>
   is_finite (low (fst (getAudioData configured_globals (replicate 1024 255) 0)))"
proof -
  have r: "reachable_globals configured_globals"
    unfolding configured_globals_def by (intro rg_granted rg_begin rg_init)
  have a: "analyser configured_globals =
      Some \<lparr> a_fftSize = 2048, a_smoothingTimeConstant = 0.85 \<rparr>"
    by (simp add: configured_globals_eq)
  show ?thesis
    using r a band_divisors_positive [OF r, of "replicate 1024 255" 0]
    by (auto simp: frequencyBinCount_def)
qed

subsection \<open>Demo mode\<close>

lemma sin_one_pos: "0 < sin (1::real)"
  by (rule sin_gt_zero_02) simp_all

lemma sin_two_pos: "0 < sin (2::real)"
proof -
  have u: "sin (1/2::real) \<le> 1/2" by (rule sin_x_le_x) simp
  have "(1/2::real) \<le> pi" using pi_ge_two by simp
  then have l: "0 \<le> sin (1/2::real)" by (intro sin_ge_zero) simp_all
  from l u have "sin (1/2::real) * sin (1/2) \<le> (1/2) * (1/2)"
    by (intro mult_mono) simp_all
  then have q: "(sin (1/2::real))\<^sup>2 \<le> 1/4" by (simp add: power2_eq_square)
  have "cos (1::real) = 1 - 2 * (sin (1/2))\<^sup>2"
    using cos_double_sin [of "1/2::real"] by simp
  with q have c: "0 < cos (1::real)" by simp
  have "sin (2::real) = 2 * sin 1 * cos 1" using sin_double [of "1::real"] by simp
  with c sin_one_pos show ?thesis by simp
qed

text \<open>
  Claim C4. Without active audio the bands are a function of the time alone, the three
  sine formulas: the low band is \<open>(0.5 + 0.5 sin (2 t)) 0.8\<close>, the mid band
  \<open>(0.5 + 0.5 sin (1.5 t + 1)) 0.6\<close> and the high band \<open>(0.5 + 0.5 sin (3 t + 2)) 0.5\<close>.
  The audio variables are left as they are, and two calls at the same time return the same
  bands, whatever the variables and the spectrum are.
\<close>

theorem demo_bands_closed_form:
  assumes "\<not> (isAudioActive g \<and> analyser g \<noteq> None)"
  shows "getAudioData g spectrum t =
           (\<lparr> low = Fin ((0.5 + 0.5 * sin (2 * t)) * 0.8),
              mid = Fin ((0.5 + 0.5 * sin (1.5 * t + 1)) * 0.6),
              high = Fin ((0.5 + 0.5 * sin (3 * t + 2)) * 0.5) \<rparr>, g) \<and>
         (\<forall>g' spectrum'. \<not> (isAudioActive g' \<and> analyser g' \<noteq> None) \<longrightarrow>
            fst (getAudioData g' spectrum' t) = fst (getAudioData g spectrum t))"
  using assms by (simp add: demo_getAudioData demoBands_def mult.commute add.commute)

text \<open>The theorem before any audio is started, at a time where the low band peaks.\<close>

theorem demo_bands_closed_form_witness:
  "\<not> (isAudioActive initial_globals \<and> analyser initial_globals \<noteq> None) \<and>
   getAudioData initial_globals [] (pi / 4) =
     (\<lparr> low = Fin 0.8, mid = Fin ((0.5 + 0.5 * sin (1.5 * (pi / 4) + 1)) * 0.6),
        high = Fin ((0.5 + 0.5 * sin (3 * (pi / 4) + 2)) * 0.5) \<rparr>, initial_globals)"
proof -
  have h: "\<not> (isAudioActive initial_globals \<and> analyser initial_globals \<noteq> None)"
    by (simp add: initial_globals_def)
  show ?thesis
    using h demo_bands_closed_form [OF h, of "[]" "pi / 4"] by simp
qed

text \<open>
  At time 0 the demo bands are not 0.4, 0.3 and 0.25: the mid and the high wave have a
  phase, and \<open>sin 1\<close> is not zero.
\<close>

theorem demo_time_zero_counterexample:
  "fst (getAudioData initial_globals [] 0) \<noteq>
     \<lparr> low = Fin 0.4, mid = Fin 0.3, high = Fin 0.25 \<rparr>"
  using sin_one_pos
  by (simp add: getAudioData_def initial_globals_def demoBands_def)

text \<open>
  Claim C3, amended. Without active audio the bands at time 0 are 0.4 for the low band,
  \<open>0.3 + 0.3 sin 1\<close> for the mid band and \<open>0.25 + 0.25 sin 2\<close> for the high band; the last
  two are greater than 0.3 and 0.25.
\<close>

theorem demo_time_zero:
  assumes "\<not> isAudioActive g"
  shows "fst (getAudioData g spectrum 0) =
           \<lparr> low = Fin 0.4, mid = Fin (0.3 + 0.3 * sin 1),
             high = Fin (0.25 + 0.25 * sin 2) \<rparr> \<and>
         0.3 < 0.3 + 0.3 * sin (1::real) \<and> 0.25 < 0.25 + 0.25 * sin (2::real)"
  using assms sin_one_pos sin_two_pos
  by (simp add: demo_getAudioData demoBands_def algebra_simps)

text \<open>The theorem before any audio is started.\<close>

theorem demo_time_zero_witness:
  "\<not> isAudioActive initial_globals \<and>
   fst (getAudioData initial_globals [] 0) =
     \<lparr> low = Fin 0.4, mid = Fin (0.3 + 0.3 * sin 1), high = Fin (0.25 + 0.25 * sin 2) \<rparr>"
proof -
  have h: "\<not> isAudioActive initial_globals" by (simp add: initial_globals_def)
  show ?thesis using h demo_time_zero [OF h, of "[]"] by simp
qed

section \<open>Properties of the manager\<close>

subsection \<open>What a mode switch leaves in the scene\<close>

lemma remove1_single:
  assumes "set xs \<subseteq> {a}" "distinct xs"
  shows "remove1 a xs = []"
proof (cases xs)
  case Nil
  then show ?thesis by simp
next
  case (Cons b ys)
  with assms have b: "b = a" and "set ys \<subseteq> {a}" and "a \<notin> set ys" by auto
  then have "ys = []" by (cases ys) auto
  with Cons b show ?thesis by simp
qed

lemma dispose_detached:
  assumes "mgr_inv m" "currentEffect m = Some e"
  shows "detached (snd (effect_dispose e thr m))"
  using assms by (auto simp: mgr_inv_def detached_def effect_dispose_def scene_remove_def remove1_single Let_def)

lemma dispose_fields:
  "nextObject (snd (effect_dispose e thr m)) = nextObject m"
  "currentEffect (snd (effect_dispose e thr m)) = currentEffect m"
  "calls (snd (effect_dispose e thr m)) = calls m @ [Disposed (e_group e)]"
  "camera (snd (effect_dispose e thr m)) = camera m"
  "console (snd (effect_dispose e thr m)) = console m"
  "fst (effect_dispose e thr m) = (if thr then Throw else Normal)"
  by (simp_all add: effect_dispose_def Let_def)

lemma none_detached: "mgr_inv m \<Longrightarrow> currentEffect m = None \<Longrightarrow> detached m"
  by (simp add: mgr_inv_def detached_def)

lemma detached_setCamera: "detached (setCamera p t m) = detached m"
  by (simp add: detached_def setCamera_def)
lemma detached_setFog: "detached (setFog f m) = detached m"
  by (simp add: detached_def setFog_def)
lemma detached_resetCamera: "detached (resetCamera m) = detached m"
  by (simp add: resetCamera_def detached_setCamera detached_setFog)
lemma detached_console: "detached (m\<lparr>console := c\<rparr>) = detached m"
  by (simp add: detached_def)

lemma nextObject_setCamera: "nextObject (setCamera p t m) = nextObject m"
  by (simp add: setCamera_def)
lemma nextObject_setFog: "nextObject (setFog f m) = nextObject m"
  by (simp add: setFog_def)
lemma nextObject_resetCamera: "nextObject (resetCamera m) = nextObject m"
  by (simp add: resetCamera_def nextObject_setCamera nextObject_setFog)

lemma newEffect_children: "detached m \<Longrightarrow> children (scene (newEffect k m)) = [nextObject m]"
  by (simp add: detached_def newEffect_def scene_add_def Let_def)

lemma newEffect_inv: "detached m \<Longrightarrow> mgr_inv (newEffect k m)"
  by (auto simp: detached_def mgr_inv_def newEffect_def scene_add_def Let_def less_Suc_eq)

lemma detached_stale_inv:
  "detached m \<Longrightarrow> \<forall>e. currentEffect m = Some e \<longrightarrow> e_group e < nextObject m \<Longrightarrow> mgr_inv m"
  by (auto simp: detached_def mgr_inv_def)

lemma switch_post_new: "detached m1 \<Longrightarrow> nextObject m1 = n \<Longrightarrow> nextObject m = n \<Longrightarrow> switch_post m (newEffect k m1)"
  by (simp add: switch_post_def newEffect_inv newEffect_children) (simp add: newEffect_def Let_def)

lemma switch_post_stale:
  "detached m1 \<Longrightarrow> nextObject m1 = nextObject m \<Longrightarrow> \<forall>e. currentEffect m1 = Some e \<longrightarrow> e_group e < nextObject m1 \<Longrightarrow> switch_post m m1"
  by (simp add: switch_post_def detached_stale_inv) (simp add: detached_def)

lemma current_lt: "mgr_inv m \<Longrightarrow> currentEffect m = Some e \<Longrightarrow> e_group e < nextObject m"
  by (simp add: mgr_inv_def)

lemma current_setCamera: "currentEffect (setCamera p t m) = currentEffect m"
  by (simp add: setCamera_def)
lemma current_setFog: "currentEffect (setFog f m) = currentEffect m"
  by (simp add: setFog_def)
lemma current_resetCamera: "currentEffect (resetCamera m) = currentEffect m"
  by (simp add: resetCamera_def current_setCamera current_setFog)

lemma cases_post:
  assumes d: "detached m2" and n: "nextObject m2 = nextObject m"
    and c: "\<forall>e. currentEffect m2 = Some e \<longrightarrow> e_group e < nextObject m2"
  shows "switch_post m (modeCases mode m2)" and "switch_post m (modeCases_part000 mode m2)"
proof -
  have A: "\<And>k p t. switch_post m (newEffect k (setCamera p t m2))"
    by (rule switch_post_new [where n = "nextObject m"])
      (simp_all add: d n detached_setCamera nextObject_setCamera)
  have B: "\<And>k f. switch_post m (newEffect k (setFog f m2))"
    by (rule switch_post_new [where n = "nextObject m"])
      (simp_all add: d n detached_setFog nextObject_setFog)
  have C: "\<And>k. switch_post m (newEffect k m2)"
    by (rule switch_post_new [where n = "nextObject m"]) (simp_all add: d n)
  have D: "switch_post m m2" using d n c by (rule switch_post_stale)
  show "switch_post m (modeCases mode m2)"
    unfolding modeCases_def by (simp only: A B C D simp_thms split: if_split)
  show "switch_post m (modeCases_part000 mode m2)"
    unfolding modeCases_part000_def by (simp only: A B C D simp_thms split: if_split)
qed

lemma switchMode_post:
  assumes "mgr_inv m"
  shows "switch_post m (snd (switchMode mode thr m))"
proof (cases "currentEffect m")
  case None
  have d: "detached (resetCamera m)"
    using assms None by (simp add: detached_resetCamera none_detached)
  have e: "snd (switchMode mode thr m) = modeCases mode (resetCamera m)"
    using None by (simp add: switchMode_def)
  show ?thesis unfolding e
    by (rule cases_post(1) [OF d]) (simp_all add: nextObject_resetCamera current_resetCamera None)
next
  case (Some e)
  let ?m1 = "snd (effect_dispose e thr m)"
  have d1: "detached ?m1" using assms Some by (rule dispose_detached)
  have lt: "e_group e < nextObject m" using assms Some by (rule current_lt)
  have d: "detached (resetCamera ?m1)" using d1 by (simp add: detached_resetCamera)
  have e: "snd (switchMode mode thr m) = (if thr then ?m1 else modeCases mode (resetCamera ?m1))"
    using Some by (simp add: switchMode_def effect_dispose_def Let_def)
  have s: "switch_post m ?m1"
    using d1 by (rule switch_post_stale) (simp_all add: dispose_fields Some lt)
  have n: "switch_post m (modeCases mode (resetCamera ?m1))"
    by (rule cases_post(1) [OF d])
      (simp_all add: nextObject_resetCamera current_resetCamera dispose_fields Some lt)
  show ?thesis unfolding e using s n by (cases thr) simp_all
qed

lemma switchMode_part000_post:
  assumes "mgr_inv m"
  shows "switch_post m (snd (switchMode_part000 mode thr m))"
proof (cases "currentEffect m")
  case None
  have d: "detached (resetCamera m)"
    using assms None by (simp add: detached_resetCamera none_detached)
  have e: "snd (switchMode_part000 mode thr m) = modeCases_part000 mode (resetCamera m)"
    using None by (simp add: switchMode_part000_def)
  show ?thesis unfolding e
    by (rule cases_post(2) [OF d]) (simp_all add: nextObject_resetCamera current_resetCamera None)
next
  case (Some e)
  let ?m1 = "snd (effect_dispose e thr m)"
  let ?m1' = "if thr then ?m1\<lparr>console := console ?m1 @ [''Error disposing effect:'']\<rparr> else ?m1"
  have d1: "detached ?m1" using assms Some by (rule dispose_detached)
  have lt: "e_group e < nextObject m" using assms Some by (rule current_lt)
  have d: "detached (resetCamera ?m1')"
    using d1 by (cases thr) (simp_all add: detached_resetCamera detached_console)
  have e: "snd (switchMode_part000 mode thr m) = modeCases_part000 mode (resetCamera ?m1')"
    using Some by (simp add: switchMode_part000_def effect_dispose_def Let_def)
  show ?thesis unfolding e
    by (rule cases_post(2) [OF d])
      (simp_all add: nextObject_resetCamera current_resetCamera dispose_fields Some lt)
qed

lemma switchMode_of_post: "mgr_inv m \<Longrightarrow> switch_post m (snd (switchMode_of rv mode thr m))"
  by (cases rv) (simp_all add: switchMode_of_def switchMode_post switchMode_part000_post)

lemma effect_update_inv: "mgr_inv m \<Longrightarrow> mgr_inv (effect_update e time audioData m)"
  by (cases "e_kind e") (auto simp: mgr_inv_def effect_update_def Let_def)

lemma animate_inv: "mgr_inv (snd gm) \<Longrightarrow> mgr_inv (snd (animate now spectrum gm))"
  by (auto simp: animate_def Let_def effect_update_inv split: prod.splits option.splits)

lemma step_inv: "mgr_inv (snd gm) \<Longrightarrow> mgr_inv (snd (step rv gm ev))"
proof (cases gm)
  case (Pair g m)
  assume "mgr_inv (snd gm)"
  with Pair have i: "mgr_inv m" by simp
  show ?thesis
  proof (cases ev)
    case (SwitchMode mode thr)
    with Pair switchMode_of_post [OF i, of rv mode thr] show ?thesis by (simp add: switch_post_def)
  next
    case (Animate now spectrum)
    with Pair animate_inv [of "(g, m)" now spectrum] i show ?thesis by simp
  qed (use Pair i in simp_all)
qed

lemma emptyManager_inv: "mgr_inv emptyManager"
  by (simp add: mgr_inv_def emptyManager_def)

lemma newManager_inv: "mgr_inv (newManager rv)"
  unfolding newManager_def using switchMode_of_post [OF emptyManager_inv] by (simp add: switch_post_def)

lemma foldl_step_inv: "mgr_inv (snd gm) \<Longrightarrow> mgr_inv (snd (foldl (step rv) gm evs))"
  by (induction evs arbitrary: gm) (simp_all add: step_inv)

lemma run_inv: "mgr_inv (snd (run rv evs))"
  unfolding run_def by (rule foldl_step_inv) (simp add: newManager_inv)

lemma modeCases_unknown:
  "mode \<notin> set (modes_of Visualizer_js) \<Longrightarrow> modeCases mode m = m"
  "mode \<notin> set (modes_of Part000) \<Longrightarrow> modeCases_part000 mode m = m"
  by (simp_all add: modes_of_def modeCases_def modeCases_part000_def)

lemma resetCamera_fields:
  "camera (resetCamera m) = \<lparr> cam_position = vec 0 5 15, cam_lookAt = vec 0 0 0 \<rparr>"
  "fog (scene (resetCamera m)) = None"
  "calls (resetCamera m) = calls m"
  "children (scene (resetCamera m)) = children (scene m)"
  "console (resetCamera m) = console m"
  by (simp_all add: resetCamera_def setFog_def setCamera_def)

lemmas mgr_defs = switchMode_of_def switchMode_def switchMode_part000_def modeCases_def modeCases_part000_def effect_dispose_def newEffect_def
  setCamera_def setFog_def resetCamera_def scene_add_def scene_remove_def emptyManager_def newManager_def
  run_def animate_def effect_update_def vec_def

subsection \<open>The calls of a mode switch\<close>

lemma construct_calls_refl: "construct_calls m m"
  by (simp add: construct_calls_def)

lemma construct_calls_new:
  "calls m1 = calls m \<Longrightarrow> nextObject m1 = nextObject m \<Longrightarrow> construct_calls m (newEffect k m1)"
  by (simp add: construct_calls_def newEffect_def Let_def)

lemma calls_setCamera: "calls (setCamera p t m) = calls m"
  by (simp add: setCamera_def)
lemma calls_setFog: "calls (setFog f m) = calls m"
  by (simp add: setFog_def)

lemma cases_calls:
  "construct_calls m (modeCases mode m)" "construct_calls m (modeCases_part000 mode m)"
proof -
  have A: "\<And>k p t. construct_calls m (newEffect k (setCamera p t m))"
    by (rule construct_calls_new) (simp_all add: calls_setCamera nextObject_setCamera)
  have B: "\<And>k f. construct_calls m (newEffect k (setFog f m))"
    by (rule construct_calls_new) (simp_all add: calls_setFog nextObject_setFog)
  have C: "\<And>k. construct_calls m (newEffect k m)"
    by (rule construct_calls_new) simp_all
  note D = construct_calls_refl [of m]
  show "construct_calls m (modeCases mode m)"
    unfolding modeCases_def by (simp only: A B C D simp_thms split: if_split)
  show "construct_calls m (modeCases_part000 mode m)"
    unfolding modeCases_part000_def by (simp only: A B C D simp_thms split: if_split)
qed

lemma construct_calls_reset:
  assumes "construct_calls (resetCamera m1) m'" "calls m1 = calls m @ ds" "nextObject m1 = nextObject m"
  shows "\<exists>cs. calls m' = calls m @ ds @ cs \<and> (cs = [] \<or> (\<exists>k. cs = [Constructed (nextObject m) k]))"
  using assms by (auto simp: construct_calls_def resetCamera_fields nextObject_resetCamera)

lemma switchMode_of_calls:
  "\<exists>cs. calls (snd (switchMode_of rv mode thr m)) =
      calls m @ (case currentEffect m of Some e \<Rightarrow> [Disposed (e_group e)] | None \<Rightarrow> []) @ cs \<and>
      (cs = [] \<or> (\<exists>k. cs = [Constructed (nextObject m) k]))"
proof (cases "currentEffect m")
  case None
  show ?thesis
  proof (cases rv)
    case Visualizer_js
    have "snd (switchMode_of rv mode thr m) = modeCases mode (resetCamera m)"
      using None Visualizer_js by (simp add: switchMode_of_def switchMode_def)
    then show ?thesis
      using construct_calls_reset [OF cases_calls(1) [of "resetCamera m" mode], of m "[]"] None
      by simp
  next
    case Part000
    have "snd (switchMode_of rv mode thr m) = modeCases_part000 mode (resetCamera m)"
      using None Part000 by (simp add: switchMode_of_def switchMode_part000_def)
    then show ?thesis
      using construct_calls_reset [OF cases_calls(2) [of "resetCamera m" mode], of m "[]"] None
      by simp
  qed
next
  case (Some e)
  let ?m1 = "snd (effect_dispose e thr m)"
  let ?m1' = "if thr then ?m1\<lparr>console := console ?m1 @ [''Error disposing effect:'']\<rparr> else ?m1"
  have c1: "calls ?m1 = calls m @ [Disposed (e_group e)]" "nextObject ?m1 = nextObject m"
    by (simp_all add: dispose_fields)
  have c1': "calls ?m1' = calls m @ [Disposed (e_group e)]" "nextObject ?m1' = nextObject m"
    by (simp_all add: dispose_fields)
  show ?thesis
  proof (cases rv)
    case Visualizer_js
    have e: "snd (switchMode_of rv mode thr m) = (if thr then ?m1 else modeCases mode (resetCamera ?m1))"
      using Some Visualizer_js by (simp add: switchMode_of_def switchMode_def effect_dispose_def Let_def)
    show ?thesis
    proof (cases thr)
      case True
      with e c1 Some show ?thesis by simp
    next
      case False
      with e have "snd (switchMode_of rv mode thr m) = modeCases mode (resetCamera ?m1)" by simp
      then show ?thesis
        using construct_calls_reset [OF cases_calls(1) [of "resetCamera ?m1" mode] c1] Some by simp
    qed
  next
    case Part000
    have e: "snd (switchMode_of rv mode thr m) = modeCases_part000 mode (resetCamera ?m1')"
      using Some Part000 by (simp add: switchMode_of_def switchMode_part000_def effect_dispose_def Let_def)
    show ?thesis
      using construct_calls_reset [OF cases_calls(2) [of "resetCamera ?m1'" mode] c1'] Some e by simp
  qed
qed

lemma step_nextObject: "mgr_inv (snd gm) \<Longrightarrow> nextObject (snd gm) \<le> nextObject (snd (step rv gm ev))"
proof (cases gm)
  case (Pair g m)
  assume "mgr_inv (snd gm)"
  with Pair have i: "mgr_inv m" by simp
  show ?thesis
  proof (cases ev)
    case (SwitchMode mode thr)
    with Pair switchMode_of_post [OF i, of rv mode thr] show ?thesis by (simp add: switch_post_def)
  next
    case (Animate now spectrum)
    with Pair show ?thesis
      by (auto simp: animate_def Let_def effect_update_def split: prod.splits option.splits)
  qed (use Pair in simp_all)
qed

lemma foldl_step_nextObject:
  "mgr_inv (snd gm) \<Longrightarrow> nextObject (snd gm) \<le> nextObject (snd (foldl (step rv) gm evs))"
proof (induction evs arbitrary: gm)
  case Nil
  show ?case by simp
next
  case (Cons ev evs)
  have "nextObject (snd gm) \<le> nextObject (snd (step rv gm ev))"
    using Cons.prems by (rule step_nextObject)
  also have "\<dots> \<le> nextObject (snd (foldl (step rv) (step rv gm ev) evs))"
    by (rule Cons.IH) (rule step_inv [OF Cons.prems])
  finally show ?case by simp
qed

lemma switch_detaches:
  assumes "mgr_inv m" "n < nextObject m"
  shows "n \<notin> set (children (scene (snd (switchMode_of rv mode thr m))))"
  using switchMode_of_post [OF assms(1), of rv mode thr] assms(2)
  by (auto simp: switch_post_def)

text \<open>
  Claim C2. In both files, and in every state that a run of the program reaches:
  \<open>switchMode\<close> calls \<open>dispose\<close> on the current effect, when there is one, before it
  constructs an effect, and it constructs at most one. After \<open>switchMode(B)\<close> that follows
  \<open>switchMode(A)\<close>, with any events in between, the group of the effect that was current
  after \<open>switchMode(A)\<close> is not a child of the scene, nor is the group of any effect
  constructed before \<open>switchMode(B)\<close>: nothing of them hangs under the scene root. This
  holds also when \<open>dispose\<close> raises, since the group is removed first.
\<close>

theorem switchMode_detaches_previous_effect:
  "let gmA = step rv (run rv evs) (SwitchMode A fa);
       m2 = snd (foldl (step rv) gmA between);
       mB = snd (switchMode_of rv B fb m2)
   in (\<forall>e. currentEffect (snd gmA) = Some e \<longrightarrow> e_group e \<notin> set (children (scene mB))) \<and>
      (\<forall>n k. Constructed n k \<in> set (calls m2) \<longrightarrow> n \<notin> set (children (scene mB))) \<and>
      (\<exists>cs. calls mB =
              calls m2 @
              (case currentEffect m2 of Some e \<Rightarrow> [Disposed (e_group e)] | None \<Rightarrow> []) @ cs \<and>
            (cs = [] \<or> (\<exists>k. cs = [Constructed (nextObject m2) k])))"
proof -
  define gmA where "gmA = step rv (run rv evs) (SwitchMode A fa)"
  define m2 where "m2 = snd (foldl (step rv) gmA between)"
  define mB where "mB = snd (switchMode_of rv B fb m2)"
  have iA: "mgr_inv (snd gmA)" unfolding gmA_def by (rule step_inv) (rule run_inv)
  have i2: "mgr_inv m2" unfolding m2_def using iA by (rule foldl_step_inv)
  have le: "nextObject (snd gmA) \<le> nextObject m2"
    unfolding m2_def using iA by (rule foldl_step_nextObject)
  have a: "\<forall>e. currentEffect (snd gmA) = Some e \<longrightarrow> e_group e \<notin> set (children (scene mB))"
  proof (intro allI impI)
    fix e assume "currentEffect (snd gmA) = Some e"
    with iA have "e_group e < nextObject (snd gmA)" by (rule current_lt)
    with le have "e_group e < nextObject m2" by simp
    with i2 show "e_group e \<notin> set (children (scene mB))"
      unfolding mB_def by (rule switch_detaches)
  qed
  have b: "\<forall>n k. Constructed n k \<in> set (calls m2) \<longrightarrow> n \<notin> set (children (scene mB))"
  proof (intro allI impI)
    fix n k assume "Constructed n k \<in> set (calls m2)"
    with i2 have "n < nextObject m2" by (auto simp: mgr_inv_def)
    with i2 show "n \<notin> set (children (scene mB))"
      unfolding mB_def by (rule switch_detaches)
  qed
  have c: "\<exists>cs. calls mB =
              calls m2 @
              (case currentEffect m2 of Some e \<Rightarrow> [Disposed (e_group e)] | None \<Rightarrow> []) @ cs \<and>
            (cs = [] \<or> (\<exists>k. cs = [Constructed (nextObject m2) k]))"
    unfolding mB_def by (rule switchMode_of_calls)
  from a b c show ?thesis
    unfolding Let_def gmA_def [symmetric] m2_def [symmetric] mB_def [symmetric] by blast
qed

text \<open>
  The theorem at the run of the first file that switches to the wave, renders a frame and
  switches to the fireworks.
\<close>

theorem switchMode_detaches_previous_effect_witness:
  "currentEffect (snd (step Visualizer_js (run Visualizer_js []) (SwitchMode ''wave'' False))) =
     Some \<lparr> e_group = 1, e_kind = WaveEffect \<rparr> \<and>
   children (scene (snd (step Visualizer_js (run Visualizer_js []) (SwitchMode ''wave'' False)))) = [1] \<and>
   1 \<notin> set (children (scene (snd (switchMode_of Visualizer_js ''fireworks'' False
     (snd (foldl (step Visualizer_js)
       (step Visualizer_js (run Visualizer_js []) (SwitchMode ''wave'' False)) [Animate 16 []])))))) \<and>
   calls (snd (switchMode_of Visualizer_js ''fireworks'' False
     (snd (foldl (step Visualizer_js)
       (step Visualizer_js (run Visualizer_js []) (SwitchMode ''wave'' False)) [Animate 16 []])))) =
     [Constructed 0 CosmicEffect, Disposed 0, Constructed 1 WaveEffect, Updated 1, Disposed 1,
      Constructed 2 FireworksEffect]"
proof -
  have c: "currentEffect (snd (step Visualizer_js (run Visualizer_js []) (SwitchMode ''wave'' False))) =
     Some \<lparr> e_group = 1, e_kind = WaveEffect \<rparr>"
    by (simp add: mgr_defs Let_def)
  have k: "calls (snd (switchMode_of Visualizer_js ''fireworks'' False
     (snd (foldl (step Visualizer_js)
       (step Visualizer_js (run Visualizer_js []) (SwitchMode ''wave'' False)) [Animate 16 []])))) =
     [Constructed 0 CosmicEffect, Disposed 0, Constructed 1 WaveEffect, Updated 1, Disposed 1,
      Constructed 2 FireworksEffect]"
    by (simp add: mgr_defs Let_def demo_getAudioData initial_globals_def)
  have ch: "children (scene (snd (step Visualizer_js (run Visualizer_js []) (SwitchMode ''wave'' False)))) = [1]"
    by (simp add: mgr_defs Let_def)
  from switchMode_detaches_previous_effect [of Visualizer_js "[]" "''wave''" False "[Animate 16 []]" "''fireworks''" False]
  have "1 \<notin> set (children (scene (snd (switchMode_of Visualizer_js ''fireworks'' False
     (snd (foldl (step Visualizer_js)
       (step Visualizer_js (run Visualizer_js []) (SwitchMode ''wave'' False)) [Animate 16 []]))))))"
    unfolding Let_def using c by simp
  with c k ch show ?thesis by simp
qed

subsection \<open>A token without a case\<close>

text \<open>
  A token without a case is not without effect. After a switch to the wave, the token
  \<open>dancer\<close> moves the camera back from (0, 5, 30) to (0, 5, 15); after the first switch to
  the cosmic effect it clears the fog and removes the group of the current effect from the
  scene.
\<close>

theorem switchMode_unknown_token_counterexample:
  "camera (snd (switchMode ''dancer'' False (snd (run Visualizer_js [SwitchMode ''wave'' False])))) \<noteq>
     camera (snd (run Visualizer_js [SwitchMode ''wave'' False])) \<and>
   fog (scene (snd (switchMode ''dancer'' False (newManager Visualizer_js)))) \<noteq>
     fog (scene (newManager Visualizer_js)) \<and>
   children (scene (snd (switchMode ''dancer'' False (newManager Visualizer_js)))) \<noteq>
     children (scene (newManager Visualizer_js))"
  by (simp add: mgr_defs Let_def)

text \<open>
  Claim C7, amended. A call of \<open>switchMode\<close> with a token that has no case constructs no
  effect, whether it returns or raises: no object is created, no construction is among
  the calls it adds, and the scene gets no new child. It returns unless \<open>dispose\<close> raises
  in \<open>AudioVisualizer/visualizer.js\<close>. When it returns, the camera stands at (0, 5, 15)
  turned to the origin and the fog is cleared, whatever they were before.
\<close>

theorem switchMode_unknown_token:
  assumes "mode \<notin> set (modes_of rv)" and "switchMode_of rv mode thr m = (c, m')"
  shows "nextObject m' = nextObject m \<and>
         (\<exists>ds. calls m' = calls m @ ds \<and> (\<forall>n k. Constructed n k \<notin> set ds)) \<and>
         set (children (scene m')) \<subseteq> set (children (scene m)) \<and>
         (c = Normal \<longleftrightarrow> rv = Part000 \<or> \<not> thr \<or> currentEffect m = None) \<and>
         (c = Normal \<longrightarrow>
            camera m' = \<lparr> cam_position = vec 0 5 15, cam_lookAt = vec 0 0 0 \<rparr> \<and>
            fog (scene m') = None)"
proof (cases rv)
  case Visualizer_js
  with assms have u: "\<And>x. modeCases mode x = x" by (simp add: modeCases_unknown)
  from assms(2) Visualizer_js show ?thesis
    by (cases "currentEffect m"; cases thr)
      (auto simp: switchMode_of_def switchMode_def u Let_def resetCamera_def setCamera_def
        setFog_def effect_dispose_def scene_remove_def split: if_splits dest: set_remove1_subset [THEN subsetD])
next
  case Part000
  with assms have u: "\<And>x. modeCases_part000 mode x = x" by (simp add: modeCases_unknown)
  from assms(2) Part000 show ?thesis
    by (cases "currentEffect m"; cases thr)
      (auto simp: switchMode_of_def switchMode_part000_def u Let_def resetCamera_def setCamera_def
        setFog_def effect_dispose_def scene_remove_def split: if_splits dest: set_remove1_subset [THEN subsetD])
qed

text \<open>
  The theorem at the token \<open>dancer\<close> after a switch to the wave, in the first file: the
  camera moves from (0, 5, 30) to (0, 5, 15).
\<close>

theorem switchMode_unknown_token_witness:
  "''dancer'' \<notin> set (modes_of Visualizer_js) \<and>
   fst (switchMode_of Visualizer_js ''dancer'' False (snd (run Visualizer_js [SwitchMode ''wave'' False]))) =
     Normal \<and>
   camera (snd (run Visualizer_js [SwitchMode ''wave'' False])) =
     \<lparr> cam_position = vec 0 5 30, cam_lookAt = vec 0 5 (- 50) \<rparr> \<and>
   camera (snd (switchMode_of Visualizer_js ''dancer'' False
       (snd (run Visualizer_js [SwitchMode ''wave'' False])))) =
     \<lparr> cam_position = vec 0 5 15, cam_lookAt = vec 0 0 0 \<rparr> \<and>
   fog (scene (snd (switchMode_of Visualizer_js ''dancer'' False
       (snd (run Visualizer_js [SwitchMode ''wave'' False]))))) = None \<and>
   nextObject (snd (switchMode_of Visualizer_js ''dancer'' False
       (snd (run Visualizer_js [SwitchMode ''wave'' False])))) = 2 \<and>
   nextObject (snd (run Visualizer_js [SwitchMode ''wave'' False])) = 2"
proof -
  let ?m = "snd (run Visualizer_js [SwitchMode ''wave'' False])"
  let ?r = "switchMode_of Visualizer_js ''dancer'' False ?m"
  have h1: "''dancer'' \<notin> set (modes_of Visualizer_js)" by (simp add: modes_of_def)
  have h2: "?r = (fst ?r, snd ?r)" by simp
  have n: "fst ?r = Normal" by (simp add: mgr_defs Let_def)
  have c: "camera ?m = \<lparr> cam_position = vec 0 5 30, cam_lookAt = vec 0 5 (- 50) \<rparr>"
    "nextObject ?m = 2"
    by (simp_all add: mgr_defs Let_def)
  show ?thesis
    using h1 n c switchMode_unknown_token [OF h1 h2] by simp
qed

subsection \<open>Updates of a disposed effect\<close>

text \<open>
  Claim C8 asks that \<open>update\<close> is never called on an effect after its \<open>dispose\<close>, and that
  a disposed effect writes nothing more to the shared scene. In both files the run below
  breaks it: after a switch to the fireworks, a switch with the token \<open>dancer\<close> disposes
  the fireworks and leaves them as the current effect, and the next frame calls their
  \<open>update\<close>, which turns the scene.
\<close>

theorem update_on_disposed_effect:
  "update_after_dispose
     (calls (snd (run rv [SwitchMode ''fireworks'' False, SwitchMode ''dancer'' False, Animate 1000 []]))) \<and>
   currentEffect (snd (run rv [SwitchMode ''fireworks'' False, SwitchMode ''dancer'' False])) =
     Some \<lparr> e_group = 1, e_kind = FireworksEffect \<rparr> \<and>
   disposed (snd (run rv [SwitchMode ''fireworks'' False, SwitchMode ''dancer'' False])) 1 \<and>
   rotation_y (scene (snd (run rv [SwitchMode ''fireworks'' False, SwitchMode ''dancer'' False]))) = 0 \<and>
   rotation_y (scene (snd (run rv
       [SwitchMode ''fireworks'' False, SwitchMode ''dancer'' False, Animate 1000 []]))) = sin (1 / 5) / 20 \<and>
   sin (1 / 5 :: real) / 20 \<noteq> 0"
proof -
  have "0 < sin (1 / 5 :: real)" by (rule sin_gt_zero_02) simp_all
  then show ?thesis
    by (cases rv) (simp_all add: mgr_defs Let_def demo_getAudioData initial_globals_def disposed_def)
qed

text \<open>
  The runs that break it are those with a token that has no case, or, in
  \<open>AudioVisualizer/visualizer.js\<close>, with a \<open>dispose\<close> that raises. In every other run no
  update follows a disposal.
\<close>

lemma update_after_dispose_snoc:
  "update_after_dispose (cs @ [c]) \<longleftrightarrow>
     update_after_dispose cs \<or> (\<exists>g. c = Updated g \<and> Disposed g \<in> set cs)"
  by (induction cs rule: update_after_dispose.induct) (cases c; auto)+

lemma live_inv_setCamera: "live_inv (setCamera p t m) = live_inv m"
  by (simp add: live_inv_def setCamera_def disposed_def)
lemma live_inv_setFog: "live_inv (setFog f m) = live_inv m"
  by (simp add: live_inv_def setFog_def disposed_def)
lemma live_inv_resetCamera: "live_inv (resetCamera m) = live_inv m"
  by (simp add: resetCamera_def live_inv_setCamera live_inv_setFog)

lemma sound_calls_setCamera: "sound_calls (setCamera p t m) = sound_calls m"
  by (simp add: sound_calls_def setCamera_def)
lemma sound_calls_setFog: "sound_calls (setFog f m) = sound_calls m"
  by (simp add: sound_calls_def setFog_def)
lemma sound_calls_resetCamera: "sound_calls (resetCamera m) = sound_calls m"
  by (simp add: resetCamera_def sound_calls_setCamera sound_calls_setFog)
lemma sound_calls_console: "sound_calls (m\<lparr>console := c\<rparr>) = sound_calls m"
  by (simp add: sound_calls_def)

lemma newEffect_live: "sound_calls m \<Longrightarrow> live_inv (newEffect k m)"
  by (auto simp: sound_calls_def live_inv_def newEffect_def Let_def disposed_def
      update_after_dispose_snoc less_Suc_eq)

lemma dispose_sound:
  assumes "live_inv m" "mgr_inv m" "currentEffect m = Some e"
  shows "sound_calls (snd (effect_dispose e thr m))"
  using assms
  by (auto simp: sound_calls_def live_inv_def mgr_inv_def effect_dispose_def Let_def
      update_after_dispose_snoc)

lemma fallthrough5:
  "x = a \<or> x = b \<or> x = c \<or> x = d \<or> x = e \<Longrightarrow>
   x \<noteq> e \<longrightarrow> x \<noteq> d \<longrightarrow> x \<noteq> c \<longrightarrow> x \<noteq> b \<longrightarrow> x \<noteq> a \<longrightarrow> Q"
  by blast

lemma fallthrough7:
  "x = a \<or> x = b \<or> x = c \<or> x = d \<or> x = e \<or> x = f \<or> x = g \<Longrightarrow>
   x \<noteq> g \<longrightarrow> x \<noteq> f \<longrightarrow> x \<noteq> e \<longrightarrow> x \<noteq> d \<longrightarrow> x \<noteq> c \<longrightarrow> x \<noteq> b \<longrightarrow> x \<noteq> a \<longrightarrow> Q"
  by blast

lemma known_cases:
  assumes A: "\<And>k p t. P (newEffect k (setCamera p t m))"
    and B: "\<And>k f. P (newEffect k (setFog f m))"
    and C: "\<And>k. P (newEffect k m)"
  shows "mode \<in> set (modes_of Visualizer_js) \<Longrightarrow> P (modeCases mode m)"
    and "mode \<in> set (modes_of Part000) \<Longrightarrow> P (modeCases_part000 mode m)"
proof -
  assume "mode \<in> set (modes_of Visualizer_js)"
  then have k: "mode = ''cosmic'' \<or> mode = ''wave'' \<or> mode = ''light'' \<or> mode = ''fireworks'' \<or>
      mode = ''lightning''"
    by (simp only: modes_of_def revision.case list.set insert_iff empty_iff simp_thms)
  have D: "mode \<noteq> ''lightning'' \<longrightarrow> mode \<noteq> ''fireworks'' \<longrightarrow> mode \<noteq> ''light'' \<longrightarrow>
      mode \<noteq> ''wave'' \<longrightarrow> mode \<noteq> ''cosmic'' \<longrightarrow> P m"
    by (rule fallthrough5 [OF k])
  show "P (modeCases mode m)"
    unfolding modeCases_def using D by (simp only: A B C simp_thms split: if_split) blast?
next
  assume "mode \<in> set (modes_of Part000)"
  then have k: "mode = ''cosmic'' \<or> mode = ''wave'' \<or> mode = ''light'' \<or> mode = ''fireworks'' \<or>
      mode = ''lightning'' \<or> mode = ''reactor'' \<or> mode = ''multiverse''"
    by (simp only: modes_of_def revision.case list.set insert_iff empty_iff simp_thms)
  have D: "mode \<noteq> ''multiverse'' \<longrightarrow> mode \<noteq> ''reactor'' \<longrightarrow> mode \<noteq> ''lightning'' \<longrightarrow>
      mode \<noteq> ''fireworks'' \<longrightarrow> mode \<noteq> ''light'' \<longrightarrow> mode \<noteq> ''wave'' \<longrightarrow> mode \<noteq> ''cosmic'' \<longrightarrow> P m"
    by (rule fallthrough7 [OF k])
  show "P (modeCases_part000 mode m)"
    unfolding modeCases_part000_def using D by (simp only: A B C simp_thms split: if_split) blast?
qed

lemma known_cases_live:
  assumes "sound_calls m"
  shows "mode \<in> set (modes_of Visualizer_js) \<Longrightarrow> live_inv (modeCases mode m)"
    and "mode \<in> set (modes_of Part000) \<Longrightarrow> live_inv (modeCases_part000 mode m)"
proof -
  have A: "\<And>k p t. live_inv (newEffect k (setCamera p t m))"
    by (rule newEffect_live) (simp add: sound_calls_setCamera assms)
  have B: "\<And>k f. live_inv (newEffect k (setFog f m))"
    by (rule newEffect_live) (simp add: sound_calls_setFog assms)
  have C: "\<And>k. live_inv (newEffect k m)" by (rule newEffect_live) (rule assms)
  show "mode \<in> set (modes_of Visualizer_js) \<Longrightarrow> live_inv (modeCases mode m)"
    by (rule known_cases(1) [where P = live_inv, OF A B C])
  show "mode \<in> set (modes_of Part000) \<Longrightarrow> live_inv (modeCases_part000 mode m)"
    by (rule known_cases(2) [where P = live_inv, OF A B C])
qed

lemma known_switch_live:
  assumes "live_inv m" "mgr_inv m" "known_switch rv (SwitchMode mode thr)"
  shows "live_inv (snd (switchMode_of rv mode thr m))"
proof -
  have known: "mode \<in> set (modes_of rv)" and nt: "rv = Visualizer_js \<longrightarrow> \<not> thr"
    using assms(3) by (simp_all add: known_switch_def)
  have s0: "currentEffect m = None \<Longrightarrow> sound_calls m"
    using assms(1) by (simp add: live_inv_def sound_calls_def)
  show ?thesis
  proof (cases rv)
    case Visualizer_js
    with nt have nthr: "\<not> thr" by simp
    show ?thesis
    proof (cases "currentEffect m")
      case None
      then have "snd (switchMode_of rv mode thr m) = modeCases mode (resetCamera m)"
        using Visualizer_js by (simp add: switchMode_of_def switchMode_def)
      then show ?thesis
        using known_cases_live(1) [of "resetCamera m" mode] s0 [OF None] known Visualizer_js
        by (simp add: sound_calls_resetCamera)
    next
      case (Some e)
      then have "snd (switchMode_of rv mode thr m) =
          modeCases mode (resetCamera (snd (effect_dispose e thr m)))"
        using Visualizer_js nthr by (simp add: switchMode_of_def switchMode_def effect_dispose_def Let_def)
      then show ?thesis
        using known_cases_live(1) [of "resetCamera (snd (effect_dispose e thr m))" mode]
          dispose_sound [OF assms(1,2) Some, of thr] known Visualizer_js
        by (simp add: sound_calls_resetCamera)
    qed
  next
    case Part000
    show ?thesis
    proof (cases "currentEffect m")
      case None
      then have "snd (switchMode_of rv mode thr m) = modeCases_part000 mode (resetCamera m)"
        using Part000 by (simp add: switchMode_of_def switchMode_part000_def)
      then show ?thesis
        using known_cases_live(2) [of "resetCamera m" mode] s0 [OF None] known Part000
        by (simp add: sound_calls_resetCamera)
    next
      case (Some e)
      let ?m1 = "snd (effect_dispose e thr m)"
      let ?m1' = "if thr then ?m1\<lparr>console := console ?m1 @ [''Error disposing effect:'']\<rparr> else ?m1"
      have "snd (switchMode_of rv mode thr m) = modeCases_part000 mode (resetCamera ?m1')"
        using Some Part000 by (simp add: switchMode_of_def switchMode_part000_def effect_dispose_def Let_def)
      moreover have "sound_calls ?m1'"
        using dispose_sound [OF assms(1,2) Some, of thr] by (cases thr) (simp_all add: sound_calls_console)
      ultimately show ?thesis
        using known_cases_live(2) [of "resetCamera ?m1'" mode] known Part000
        by (simp add: sound_calls_resetCamera)
    qed
  qed
qed

lemma effect_update_live:
  assumes "live_inv m" "currentEffect m = Some e"
  shows "live_inv (effect_update e time audioData m)"
  using assms
  by (auto simp: live_inv_def effect_update_def Let_def disposed_def update_after_dispose_snoc)

lemma step_live:
  assumes "live_inv (snd gm)" "mgr_inv (snd gm)" "known_switch rv ev"
  shows "live_inv (snd (step rv gm ev))"
proof (cases gm)
  case (Pair g m)
  with assms have l: "live_inv m" and i: "mgr_inv m" by simp_all
  show ?thesis
  proof (cases ev)
    case (SwitchMode mode thr)
    with Pair known_switch_live [OF l i, of rv mode thr] assms(3) show ?thesis by simp
  next
    case (Animate now spectrum)
    show ?thesis
    proof (cases "currentEffect m")
      case None
      with Pair Animate l show ?thesis by (simp add: animate_def Let_def split: prod.splits)
    next
      case (Some e)
      with Pair Animate effect_update_live [OF l Some] show ?thesis
        by (simp add: animate_def Let_def split: prod.splits)
    qed
  qed (use Pair l in simp_all)
qed

lemma newManager_live: "live_inv (newManager rv)"
proof -
  have e: "live_inv emptyManager" by (simp add: live_inv_def emptyManager_def)
  have k: "known_switch rv (SwitchMode ''cosmic'' False)"
    by (cases rv) (simp_all add: known_switch_def modes_of_def)
  show ?thesis
    unfolding newManager_def by (rule known_switch_live [OF e emptyManager_inv k])
qed

lemma foldl_step_live:
  "live_inv (snd gm) \<Longrightarrow> mgr_inv (snd gm) \<Longrightarrow> \<forall>ev\<in>set evs. known_switch rv ev \<Longrightarrow>
   live_inv (snd (foldl (step rv) gm evs))"
proof (induction evs arbitrary: gm)
  case Nil
  then show ?case by simp
next
  case (Cons ev evs)
  have "live_inv (snd (step rv gm ev))" using Cons.prems by (intro step_live) simp_all
  moreover have "mgr_inv (snd (step rv gm ev))" using Cons.prems(2) by (rule step_inv)
  ultimately show ?case using Cons.IH Cons.prems(3) by simp
qed

lemma known_tokens_no_update_after_dispose:
  assumes "\<forall>ev\<in>set evs. known_switch rv ev"
  shows "\<not> update_after_dispose (calls (snd (run rv evs)))"
proof -
  have "live_inv (snd (run rv evs))"
    unfolding run_def
    by (rule foldl_step_live) (simp_all add: newManager_live newManager_inv assms)
  then show ?thesis by (simp add: live_inv_def)
qed

subsection \<open>An exception of dispose\<close>

text \<open>
  Claim C9 asks that an exception of \<open>dispose\<close> in a mode switch is logged and swallowed
  and that the next effect is constructed all the same. In \<open>AudioVisualizer/visualizer.js\<close>
  the exception leaves \<open>switchMode\<close>: nothing is written to the console, no effect is
  constructed, and the disposed effect stays the current one.
\<close>

theorem dispose_exception_propagates:
  "switchMode ''wave'' True (newManager Visualizer_js) =
     (Throw, \<lparr> scene = \<lparr> children = [], fog = Some \<lparr> fog_color = 0, fog_density = 0.02 \<rparr>, rotation_y = 0, rotation_z = 0 \<rparr>,
       camera = \<lparr> cam_position = vec 0 5 15, cam_lookAt = vec 0 0 0 \<rparr>,
       currentEffect = Some \<lparr> e_group = 0, e_kind = CosmicEffect \<rparr>, nextObject = 1,
       calls = [Constructed 0 CosmicEffect, Disposed 0],
       console = [] \<rparr>)"
  by (simp add: mgr_defs Let_def)

text \<open>The second file of \<open>unnamed/part_000\<close> does what the claim says.\<close>

lemma dispose_exception_swallowed_part000:
  "switchMode_part000 ''wave'' True (newManager Part000) =
     (Normal, \<lparr> scene = \<lparr> children = [1], fog = None, rotation_y = 0, rotation_z = 0 \<rparr>,
       camera = \<lparr> cam_position = vec 0 5 30, cam_lookAt = vec 0 5 (- 50) \<rparr>,
       currentEffect = Some \<lparr> e_group = 1, e_kind = WaveEffect \<rparr>, nextObject = 2,
       calls = [Constructed 0 CosmicEffect, Disposed 0, Constructed 1 WaveEffect],
       console = [''Error disposing effect:''] \<rparr>)"
  by (simp add: mgr_defs Let_def)

lemma switchMode_throws:
  "currentEffect m = Some e \<Longrightarrow> switchMode mode True m = (Throw, snd (effect_dispose e True m))"
  by (simp add: switchMode_def effect_dispose_def Let_def)

lemma switchMode_part000_returns: "fst (switchMode_part000 mode releaseThrows m) = Normal"
  by (simp add: switchMode_part000_def Let_def)

text \<open>
  In general: whenever \<open>dispose\<close> raises there, the switch returns, the error is on the
  console, and for a token with a case the new effect is constructed and is the current one.
\<close>

lemma all_cases:
  assumes A: "\<And>k p t. P (newEffect k (setCamera p t m))"
    and B: "\<And>k f. P (newEffect k (setFog f m))"
    and C: "\<And>k. P (newEffect k m)" and D: "P m"
  shows "P (modeCases mode m)" and "P (modeCases_part000 mode m)"
  unfolding modeCases_def modeCases_part000_def
  by (simp_all only: A B C D simp_thms split: if_split)

lemma switchMode_part000_swallows:
  assumes "currentEffect m = Some e"
  shows "fst (switchMode_part000 mode True m) = Normal"
    and "console (snd (switchMode_part000 mode True m)) = console m @ [''Error disposing effect:'']"
    and "mode \<in> set (modes_of Part000) \<Longrightarrow>
            \<exists>k. currentEffect (snd (switchMode_part000 mode True m)) =
                    Some \<lparr> e_group = nextObject m, e_kind = k \<rparr> \<and>
                  calls (snd (switchMode_part000 mode True m)) =
                    calls m @ [Disposed (e_group e), Constructed (nextObject m) k]"
proof -
  let ?m1 = "snd (effect_dispose e True m)"
  let ?m2 = "resetCamera (?m1\<lparr>console := console ?m1 @ [''Error disposing effect:'']\<rparr>)"
  have e: "switchMode_part000 mode True m = (Normal, modeCases_part000 mode ?m2)"
    using assms by (simp add: switchMode_part000_def effect_dispose_def Let_def)
  have f: "console ?m2 = console m @ [''Error disposing effect:'']"
    "calls ?m2 = calls m @ [Disposed (e_group e)]" "nextObject ?m2 = nextObject m"
    by (simp_all add: resetCamera_def setCamera_def setFog_def effect_dispose_def Let_def)
  show "fst (switchMode_part000 mode True m) = Normal" by (simp add: e)
  have "console (modeCases_part000 mode ?m2) = console ?m2"
    by (rule all_cases(2) [where P = "\<lambda>x. console x = console ?m2"])
      (simp_all add: newEffect_def setCamera_def setFog_def Let_def)
  then show "console (snd (switchMode_part000 mode True m)) = console m @ [''Error disposing effect:'']"
    by (simp add: e f)
  assume k: "mode \<in> set (modes_of Part000)"
  have "\<exists>k. currentEffect (modeCases_part000 mode ?m2) = Some \<lparr> e_group = nextObject ?m2, e_kind = k \<rparr> \<and>
           calls (modeCases_part000 mode ?m2) = calls ?m2 @ [Constructed (nextObject ?m2) k]"
    by (rule known_cases(2) [where P = "\<lambda>x. \<exists>k. currentEffect x = Some \<lparr> e_group = nextObject ?m2, e_kind = k \<rparr> \<and>
           calls x = calls ?m2 @ [Constructed (nextObject ?m2) k]", OF _ _ _ k])
      (simp_all add: newEffect_def setCamera_def setFog_def Let_def)
  then show "\<exists>k. currentEffect (snd (switchMode_part000 mode True m)) =
                    Some \<lparr> e_group = nextObject m, e_kind = k \<rparr> \<and>
                  calls (snd (switchMode_part000 mode True m)) =
                    calls m @ [Disposed (e_group e), Constructed (nextObject m) k]"
    by (simp add: e f)
qed
section \<open>Properties of the fireworks effect\<close>

subsection \<open>The loop over the bursts\<close>






lemma particleStep_fields:
  "rockets (particleStep rnd t i st) = rockets st"
  "shockwaves (particleStep rnd t i st) = shockwaves st"
  "fw_nextObject (particleStep rnd t i st) = fw_nextObject st"
  "lastLaunchTime (particleStep rnd t i st) = lastLaunchTime st"
  by (simp_all add: particleStep_def Let_def)

lemma particlesLoop_fields:
  "rockets (particlesLoop rnd t i st) = rockets st"
  "shockwaves (particlesLoop rnd t i st) = shockwaves st"
  "fw_nextObject (particlesLoop rnd t i st) = fw_nextObject st"
  "lastLaunchTime (particlesLoop rnd t i st) = lastLaunchTime st"
  by (induction i arbitrary: st; simp add: particleStep_fields)+





subsection \<open>The invariant\<close>

lemma fw_inv_new: "fw_inv newFireworks"
  by (simp add: fw_inv_def newFireworks_def)

lemma explode_fields:
  "particles (explode rnd pos hue type intensity st) =
     particles st @ [\<lparr> p_mesh = fw_nextObject st, p_material = materialKey type,
        p_positions = replicate (particleCount intensity) pos,
        p_velocities = map (\<lambda>i. burstVelocity rnd (randomCount st + 5 * i) type intensity i)
          [0..<particleCount intensity],
        p_age = 0, p_lifespan = 2.0 + intensity \<rparr>]"
  "fw_children (explode rnd pos hue type intensity st) =
     fw_children st @ [fw_nextObject st, Suc (fw_nextObject st)]"
  "shockwaves (explode rnd pos hue type intensity st) =
     shockwaves st @ [\<lparr> s_mesh = Suc (fw_nextObject st), s_age = 0, s_scale = 1, s_opacity = 0.8 \<rparr>]"
  "fw_nextObject (explode rnd pos hue type intensity st) = Suc (Suc (fw_nextObject st))"
  "rockets (explode rnd pos hue type intensity st) = rockets st"
  "lastLaunchTime (explode rnd pos hue type intensity st) = lastLaunchTime st"
  by (simp_all add: explode_def createShockwave_def Let_def)

lemma explode_inv:
  assumes "fw_inv st" "0 \<le> intensity"
  shows "fw_inv (explode rnd pos hue type intensity st)"
proof -
  let ?n = "fw_nextObject st"
  have c: "distinct (fw_children st)" "\<forall>c\<in>set (fw_children st). c < ?n"
    and p: "distinct (map p_mesh (particles st))"
      "\<forall>p\<in>set (particles st). p_mesh p \<in> set (fw_children st) \<and> 0 \<le> p_age p \<and> p_age p < p_lifespan p"
    and s: "\<forall>s\<in>set (shockwaves st). s_mesh s < ?n \<and> s_mesh s \<notin> p_mesh ` set (particles st)"
    and r: "\<forall>r\<in>set (rockets st). 0 \<le> r_intensity r"
    using assms(1) by (simp_all add: fw_inv_def)
  have lt: "\<forall>p\<in>set (particles st). p_mesh p < ?n" using c(2) p(2) by blast
  have c1: "distinct (fw_children st @ [?n, Suc ?n])" using c by auto
  have c2: "\<forall>c\<in>set (fw_children st @ [?n, Suc ?n]). c < Suc (Suc ?n)" using c(2) by auto
  have p1: "?n \<notin> p_mesh ` set (particles st)" "Suc ?n \<notin> p_mesh ` set (particles st)"
    using lt by auto
  have s1: "\<forall>s\<in>set (shockwaves st). s_mesh s \<noteq> ?n" using s by auto
  show ?thesis
    unfolding fw_inv_def explode_fields
    using c1 c2 p p1 s s1 r assms(2) by (auto simp: less_Suc_eq)
qed



lemma moveRocket_fields:
  "r_intensity (moveRocket time i r) = r_intensity r"
  "r_type (moveRocket time i r) = r_type r"
  "r_targetY (moveRocket time i r) = r_targetY r"
  "r_vel (moveRocket time i r) = r_vel r"
  "r_hue (moveRocket time i r) = r_hue r"
  by (simp_all add: moveRocket_def Let_def)

lemma rocketStep_inv:
  assumes "fw_inv st" "i < length (rockets st)"
  shows "fw_inv (rocketStep rnd time i st)"
proof -
  let ?r = "moveRocket time i (rockets st ! i)"
  let ?st1 = "st\<lparr>rockets := (rockets st)[i := ?r], randomCount := Suc (randomCount st)\<rparr>"
  have ri: "0 \<le> r_intensity ?r" using assms by (simp add: fw_inv_def moveRocket_fields)
  have rs: "\<forall>r\<in>set ((rockets st)[i := ?r]). 0 \<le> r_intensity r"
    using assms ri by (auto simp: fw_inv_def dest!: set_update_subset_insert [THEN subsetD])
  have i1: "fw_inv ?st1" using assms(1) rs by (simp add: fw_inv_def)
  show ?thesis
  proof (cases "reached ?r")
    case False
    then show ?thesis using i1 by (simp add: rocketStep_def Let_def)
  next
    case True
    let ?st' = "explode rnd (r_pos ?r) (r_hue ?r) (r_type ?r) (r_intensity ?r) ?st1"
    have i2: "fw_inv ?st'" using i1 ri by (rule explode_inv)
    have "\<forall>r\<in>set (take i (rockets ?st') @ drop (Suc i) (rockets ?st')). 0 \<le> r_intensity r"
      using i2 by (auto simp: fw_inv_def dest: in_set_takeD in_set_dropD)
    then have "fw_inv (?st'\<lparr>rockets := take i (rockets ?st') @ drop (Suc i) (rockets ?st')\<rparr>)"
      using i2 by (simp add: fw_inv_def)
    then show ?thesis using True by (simp add: rocketStep_def Let_def)
  qed
qed



lemma launchRocket_fields:
  "particles (launchRocket rnd type intensity st) = particles st"
  "fw_children (launchRocket rnd type intensity st) = fw_children st"
  "shockwaves (launchRocket rnd type intensity st) = shockwaves st"
  "fw_nextObject (launchRocket rnd type intensity st) = fw_nextObject st"
  "lastLaunchTime (launchRocket rnd type intensity st) = lastLaunchTime st"
  "\<exists>r. rockets (launchRocket rnd type intensity st) = rockets st @ [r] \<and>
       r_type r = type \<and> r_intensity r = intensity"
  by (simp_all add: launchRocket_def Let_def)

lemma launchRocket_inv:
  "fw_inv st \<Longrightarrow> 0 \<le> intensity \<Longrightarrow> fw_inv ((launchRocket rnd type intensity st)\<lparr>lastLaunchTime := now\<rparr>)"
  by (simp add: fw_inv_def launchRocket_def Let_def)

lemma andRandomBelow_inv: "fw_inv (snd (andRandomBelow rnd c p st)) = fw_inv st"
  by (simp add: andRandomBelow_def fw_inv_def)

lemma andRandomBelow_fields:
  "particles (snd (andRandomBelow rnd c p st)) = particles st"
  "fw_children (snd (andRandomBelow rnd c p st)) = fw_children st"
  "rockets (snd (andRandomBelow rnd c p st)) = rockets st"
  "lastLaunchTime (snd (andRandomBelow rnd c p st)) = lastLaunchTime st"
  "shockwaves (snd (andRandomBelow rnd c p st)) = shockwaves st"
  "fw_nextObject (snd (andRandomBelow rnd c p st)) = fw_nextObject st"
  by (simp_all add: andRandomBelow_def)

lemma andRandomBelow_invD:
  "andRandomBelow rnd c p st = (h, st') \<Longrightarrow> fw_inv st \<Longrightarrow> fw_inv st' \<and> (h \<longrightarrow> c)"
  using andRandomBelow_inv [of rnd c p st] by (auto simp: andRandomBelow_def split: if_splits)

lemma launchPhase_inv:
  assumes "fw_inv st"
  shows "fw_inv (launchPhase rnd now audioData st)"
  using assms unfolding launchPhase_def
  by (auto simp: Let_def split: prod.splits dest!: andRandomBelow_invD intro!: launchRocket_inv)


lemma shockwaveStep_fields:
  "particles (shockwaveStep i st) = particles st"
  "rockets (shockwaveStep i st) = rockets st"
  "fw_nextObject (shockwaveStep i st) = fw_nextObject st"
  "lastLaunchTime (shockwaveStep i st) = lastLaunchTime st"
  by (simp_all add: shockwaveStep_def Let_def)




lemma shockwavesLoop_fields:
  "particles (shockwavesLoop i st) = particles st"
  "rockets (shockwavesLoop i st) = rockets st"
  "fw_nextObject (shockwavesLoop i st) = fw_nextObject st"
  "lastLaunchTime (shockwavesLoop i st) = lastLaunchTime st"
  by (induction i arbitrary: st; simp add: shockwaveStep_fields)+














lemma launchPhase_particles: "particles (launchPhase rnd now audioData st) = particles st"
  by (auto simp: launchPhase_def Let_def launchRocket_fields andRandomBelow_def split: prod.splits if_splits)


subsection \<open>The opacity of the materials\<close>

















subsection \<open>The life of a burst\<close>


lemmas fw_eval = update_def afterRockets_def launchPhase_def particleStep_def stepBurst_def
  stepVelocity_def shockwaveStep_def sampleFireworks_def sampleBurst_def silence_def Let_def
  alpha_def vadd_def vec_def



text \<open>The state of this frame is one that the invariant allows.\<close>

lemma floor_plane_state_inv: "fw_inv (sampleFireworks [sampleBurst 2 ''dot'' (- 6) 2])"
  by (simp add: fw_inv_def sampleFireworks_def sampleBurst_def)

text \<open>
  The opacity is written to the material of the burst, and bursts of one type share their
  material: the material holds the value of the burst with the lowest index. When that
  burst ends, the opacity of the material rises in the next frame.
\<close>

lemma shared_material_opacity_rises:
  "materialOpacity (update (\<lambda>n. 0) 50 0.05 silence
     (sampleFireworks [sampleBurst 2 ''heart'' 10 2.29, sampleBurst 4 ''heart'' 30 0.1])) ''heart'' < 0 \<and>
   0 < materialOpacity (update (\<lambda>n. 0) 60 0.06 silence (update (\<lambda>n. 0) 50 0.05 silence
     (sampleFireworks [sampleBurst 2 ''heart'' 10 2.29, sampleBurst 4 ''heart'' 30 0.1]))) ''heart''"
  by (simp add: fw_eval numeral_2_eq_2)

subsection \<open>The shapes of a burst\<close>

lemma cos_sin_periodic_nat:
  "cos (x + real q * (2 * pi)) = cos x" "sin (x + real q * (2 * pi)) = sin x"
proof (induction q)
  case 0
  { case 1 show ?case by simp }
  { case 2 show ?case by simp }
next
  case (Suc q)
  have e: "x + real (Suc q) * (2 * pi) = (x + real q * (2 * pi)) + 2 * pi" by (simp add: algebra_simps)
  { case 1 show ?case unfolding e using Suc(1) by (simp only: cos_periodic) }
  { case 2 show ?case unfolding e using Suc(2) by (simp only: sin_periodic) }
qed

lemma star_angle:
  "cos (real j / 5 * pi * 2) = cos (2 * pi * real (j mod 5) / 5)"
  "sin (real j / 5 * pi * 2) = sin (2 * pi * real (j mod 5) / 5)"
proof -
  have "real j = real (j mod 5) + 5 * real (j div 5)"
    by (metis mod_mult_div_eq of_nat_add of_nat_mult of_nat_numeral)
  then have e: "real j / 5 * pi * 2 = 2 * pi * real (j mod 5) / 5 + real (j div 5) * (2 * pi)"
    by (simp add: field_simps)
  show "cos (real j / 5 * pi * 2) = cos (2 * pi * real (j mod 5) / 5)"
    unfolding e by (rule cos_sin_periodic_nat)
  show "sin (real j / 5 * pi * 2) = sin (2 * pi * real (j mod 5) / 5)"
    unfolding e by (rule cos_sin_periodic_nat)
qed

lemma star_angle_normal:
  "cos (real j * pi * 2 / 5) = cos (2 * pi * real (j mod 5) / 5)"
  "sin (real j * pi * 2 / 5) = sin (2 * pi * real (j mod 5) / 5)"
  using star_angle [of j] by simp_all

lemma speed_range:
  assumes "0 \<le> (u::real)" "u < 1" "0 \<le> (intensity::real)"
  shows "0.3 * (1 + intensity) \<le> (0.3 + u * 0.5) * (1 + intensity)"
    and "(0.3 + u * 0.5) * (1 + intensity) < 0.8 * (1 + intensity)"
proof -
  have p: "0 < 1 + intensity" using assms(3) by simp
  have "0.3 \<le> 0.3 + u * 0.5" using assms(1) by simp
  then show "0.3 * (1 + intensity) \<le> (0.3 + u * 0.5) * (1 + intensity)"
    using p by (intro mult_right_mono) simp_all
  have "0.3 + u * 0.5 < 0.8" using assms(2) by simp
  then show "(0.3 + u * 0.5) * (1 + intensity) < 0.8 * (1 + intensity)"
    using p by (intro mult_strict_right_mono) simp_all
qed

lemma sphere_norm:
  "(sin phi * cos theta * s)\<^sup>2 + (sin phi * sin theta * s)\<^sup>2 + (cos phi * s)\<^sup>2 = (s::real)\<^sup>2"
proof -
  have a: "(cos theta)\<^sup>2 + (sin theta)\<^sup>2 = (1::real)" by simp
  have b: "(sin phi)\<^sup>2 + (cos phi)\<^sup>2 = (1::real)" by simp
  show ?thesis using a b by algebra
qed

lemma burstVelocity_shaped:
  assumes rnd: "\<forall>n. 0 \<le> rnd n \<and> rnd n < 1" and i: "0 \<le> intensity"
  shows "shaped type intensity j (burstVelocity rnd k type intensity j)"
proof -
  let ?s = "(0.3 + rnd (k + 1) * 0.5) * (1 + intensity)"
  have u: "0 \<le> rnd (k + 1)" "rnd (k + 1) < 1" "0 \<le> rnd (k + 3)" "rnd (k + 3) < 1"
    using rnd by simp_all
  note sr = speed_range [OF u(1,2) i]
  have "0 \<le> 0.3 * (1 + intensity)" using i by simp
  with sr(1) have s0: "0 \<le> ?s" by linarith
  have h: "\<bar>rnd (k + 3) - 0.5\<bar> \<le> 1 / 2" using u(3,4) by linarith
  have "\<bar>(rnd (k + 3) - 0.5) * 0.5\<bar> = \<bar>rnd (k + 3) - 0.5\<bar> * 0.5" by (simp add: abs_mult)
  with h have z: "\<bar>(rnd (k + 3) - 0.5) * 0.5\<bar> \<le> 0.25" by simp
  have zs: "\<bar>(rnd (k + 3) - 0.5) * ?s\<bar> \<le> ?s / 2"
  proof -
    have e1: "\<bar>(rnd (k + 3) - 0.5) * ?s\<bar> = \<bar>rnd (k + 3) - 0.5\<bar> * \<bar>?s\<bar>"
      by (rule abs_mult)
    have e2: "\<bar>?s\<bar> = ?s" using s0 by (rule abs_of_nonneg)
    have "\<bar>rnd (k + 3) - 0.5\<bar> * ?s \<le> (1 / 2) * ?s" using h s0 by (rule mult_right_mono)
    then have "\<bar>(rnd (k + 3) - 0.5) * ?s\<bar> \<le> (1 / 2) * ?s" by (simp only: e1 e2)
    then show ?thesis by simp
  qed
  show ?thesis
  proof (cases "type = ''heart''")
    case True
    then show ?thesis
      using z by (auto simp: shaped_def heartShaped_def burstVelocity_def Let_def)
  next
    case nh: False
    show ?thesis
    proof (cases "type = ''star''")
      case True
      have "starShaped intensity j (burstVelocity rnd k ''star'' intensity j)"
        unfolding starShaped_def
        apply (rule exI [of _ ?s])
        apply (rule exI [of _ "(if rnd (k + 2) < 0.5 then 1 else 0.4) * ?s"])
        using sr zs
        apply (simp add: burstVelocity_def Let_def star_angle_normal)
        done
      with True show ?thesis by (simp add: shaped_def)
    next
      case False
      have "spherical intensity (burstVelocity rnd k type intensity j)"
        unfolding spherical_def
        apply (rule exI [of _ ?s])
        using sr nh False
        apply (simp add: burstVelocity_def Let_def sphere_norm)
        done
      with nh False show ?thesis by (simp add: shaped_def)
    qed
  qed
qed

subsection \<open>The loop over the rockets\<close>

lemma movedRockets_snoc:
  "movedRockets time (rs @ [r]) = movedRockets time rs @ [moveRocket time (length rs) r]"
  by (simp add: movedRockets_def enumerate_append_eq)

lemma movedRockets_Nil: "movedRockets time [] = []"
  by (simp add: movedRockets_def)

lemma explode_burstFrom:
  assumes rnd: "\<forall>n. 0 \<le> rnd n \<and> rnd n < 1" and i: "0 \<le> r_intensity r" and re: "reached r"
  shows "\<exists>b. particles (explode rnd (r_pos r) (r_hue r) (r_type r) (r_intensity r) st) =
           particles st @ [b] \<and> burstFrom r b"
proof -
  let ?b = "\<lparr> p_mesh = fw_nextObject st, p_material = materialKey (r_type r),
        p_positions = replicate (particleCount (r_intensity r)) (r_pos r),
        p_velocities = map (\<lambda>i. burstVelocity rnd (randomCount st + 5 * i) (r_type r) (r_intensity r) i)
          [0..<particleCount (r_intensity r)],
        p_age = 0, p_lifespan = 2.0 + r_intensity r \<rparr>"
  have "burstFrom r ?b"
    using re burstVelocity_shaped [OF rnd i]
    by (simp add: burstFrom_def particleCount_def)
  then show ?thesis by (auto simp: explode_fields)
qed

lemma rocketStep_reached:
  assumes rnd: "\<forall>n. 0 \<le> rnd n \<and> rnd n < 1" and inv: "fw_inv st" and lt: "i < length (rockets st)"
    and re: "reached (moveRocket time i (rockets st ! i))"
  shows "rockets (rocketStep rnd time i st) = take i (rockets st) @ drop (Suc i) (rockets st)"
    and "\<exists>b. particles (rocketStep rnd time i st) = particles st @ [b] \<and>
           burstFrom (moveRocket time i (rockets st ! i)) b"
proof -
  let ?r = "moveRocket time i (rockets st ! i)"
  let ?st1 = "st\<lparr>rockets := (rockets st)[i := ?r], randomCount := Suc (randomCount st)\<rparr>"
  have e: "rocketStep rnd time i st =
      (explode rnd (r_pos ?r) (r_hue ?r) (r_type ?r) (r_intensity ?r) ?st1)
        \<lparr>rockets := take i (rockets (explode rnd (r_pos ?r) (r_hue ?r) (r_type ?r) (r_intensity ?r) ?st1)) @
           drop (Suc i) (rockets (explode rnd (r_pos ?r) (r_hue ?r) (r_type ?r) (r_intensity ?r) ?st1))\<rparr>"
    using re by (simp add: rocketStep_def Let_def)
  show "rockets (rocketStep rnd time i st) = take i (rockets st) @ drop (Suc i) (rockets st)"
    using lt by (simp add: e explode_fields)
  have ri: "0 \<le> r_intensity ?r" using inv lt by (simp add: fw_inv_def moveRocket_fields)
  from explode_burstFrom [OF rnd ri re, of ?st1]
  show "\<exists>b. particles (rocketStep rnd time i st) = particles st @ [b] \<and> burstFrom ?r b"
    by (simp add: e)
qed

lemma rocketStep_flying:
  assumes "\<not> reached (moveRocket time i (rockets st ! i))"
  shows "rockets (rocketStep rnd time i st) = (rockets st)[i := moveRocket time i (rockets st ! i)]"
    and "particles (rocketStep rnd time i st) = particles st"
  using assms by (simp_all add: rocketStep_def Let_def)

lemma rocketsLoop_char:
  assumes rnd: "\<forall>n. 0 \<le> rnd n \<and> rnd n < 1"
  shows "fw_inv st \<Longrightarrow> i \<le> length (rockets st) \<Longrightarrow>
    rockets (rocketsLoop rnd time i st) =
      filter (\<lambda>r. \<not> reached r) (movedRockets time (take i (rockets st))) @ drop i (rockets st) \<and>
    (\<exists>news. particles (rocketsLoop rnd time i st) = particles st @ news \<and>
       list_all2 burstFrom (rev (filter reached (movedRockets time (take i (rockets st))))) news)"
proof (induction i arbitrary: st)
  case 0
  show ?case by (simp add: movedRockets_Nil)
next
  case (Suc i)
  then have lt: "i < length (rockets st)" by simp
  let ?rs = "rockets st"
  let ?r = "moveRocket time i (?rs ! i)"
  let ?st = "rocketStep rnd time i st"
  have inv': "fw_inv ?st" using Suc.prems(1) lt by (rule rocketStep_inv)
  have tk: "take (Suc i) ?rs = take i ?rs @ [?rs ! i]" using lt by (simp add: take_Suc_conv_app_nth)
  have mv: "movedRockets time (take (Suc i) ?rs) = movedRockets time (take i ?rs) @ [?r]"
    using lt by (simp add: tk movedRockets_snoc)
  show ?case
  proof (cases "reached ?r")
    case True
    note e = rocketStep_reached [OF rnd Suc.prems(1) lt True]
    have len: "i \<le> length (rockets ?st)" using lt by (simp add: e(1))
    have t: "take i (rockets ?st) = take i ?rs" "drop i (rockets ?st) = drop (Suc i) ?rs"
      using lt by (simp_all add: e(1))
    obtain b where b: "particles ?st = particles st @ [b]" "burstFrom ?r b" using e(2) by blast
    from Suc.IH [OF inv' len, unfolded t]
    obtain news where n: "rockets (rocketsLoop rnd time i ?st) =
        filter (\<lambda>r. \<not> reached r) (movedRockets time (take i ?rs)) @ drop (Suc i) ?rs"
      "particles (rocketsLoop rnd time i ?st) = particles ?st @ news"
      "list_all2 burstFrom (rev (filter reached (movedRockets time (take i ?rs)))) news"
      by blast
    have "particles (rocketsLoop rnd time (Suc i) st) = particles st @ (b # news)"
      using n(2) b(1) by simp
    moreover have "list_all2 burstFrom (rev (filter reached (movedRockets time (take (Suc i) ?rs)))) (b # news)"
      using True b(2) n(3) by (simp add: mv)
    moreover have "rockets (rocketsLoop rnd time (Suc i) st) =
        filter (\<lambda>r. \<not> reached r) (movedRockets time (take (Suc i) ?rs)) @ drop (Suc i) ?rs"
      using True n(1) by (simp add: mv)
    ultimately show ?thesis by blast
  next
    case False
    note e = rocketStep_flying [OF False, of rnd]
    have len: "i \<le> length (rockets ?st)" using lt by (simp add: e(1))
    have t: "take i (rockets ?st) = take i ?rs" "drop i (rockets ?st) = ?r # drop (Suc i) ?rs"
      using lt by (simp_all add: e(1) drop_update_swap Cons_nth_drop_Suc [symmetric])
    from Suc.IH [OF inv' len, unfolded t]
    obtain news where n: "rockets (rocketsLoop rnd time i ?st) =
        filter (\<lambda>r. \<not> reached r) (movedRockets time (take i ?rs)) @ ?r # drop (Suc i) ?rs"
      "particles (rocketsLoop rnd time i ?st) = particles ?st @ news"
      "list_all2 burstFrom (rev (filter reached (movedRockets time (take i ?rs)))) news"
      by blast
    have "particles (rocketsLoop rnd time (Suc i) st) = particles st @ news"
      using n(2) e(2) by simp
    moreover have "list_all2 burstFrom (rev (filter reached (movedRockets time (take (Suc i) ?rs)))) news"
      using False n(3) by (simp add: mv)
    moreover have "rockets (rocketsLoop rnd time (Suc i) st) =
        filter (\<lambda>r. \<not> reached r) (movedRockets time (take (Suc i) ?rs)) @ drop (Suc i) ?rs"
      using False n(1) by (simp add: mv)
    ultimately show ?thesis by blast
  qed
qed

lemma launchRocket_launched:
  assumes "\<forall>n. 0 \<le> rnd n \<and> rnd n < 1" "rockets st0 = rockets st"
  shows "launched st now type intensity ((launchRocket rnd type intensity st0)\<lparr>lastLaunchTime := now\<rparr>)"
proof -
  have a: "0 \<le> rnd (randomCount st0 + 4)" "rnd (randomCount st0 + 4) < 1"
    "0 \<le> rnd (randomCount st0 + 2)" "rnd (randomCount st0 + 2) < 1"
    using assms(1) by simp_all
  show ?thesis
    using a assms(2) by (simp add: launched_def launchRocket_def Let_def vec_def)
qed

lemma launchPhase_decision:
  assumes rnd: "\<forall>n. 0 \<le> rnd n \<and> rnd n < 1"
  shows "let elapsed = now - lastLaunchTime st;
             k = randomCount st;
             mid = (0.4 < b_mid audioData \<and> rnd k < 0.5);
             high = (0.5 < b_high audioData \<and>
                     rnd (if 0.4 < b_mid audioData then Suc k else k) < 0.4);
             st1 = launchPhase rnd now audioData st
         in if \<not> 100 < elapsed then st1 = st
            else if 0.45 < b_low audioData then launched st now ''heart'' (b_low audioData) st1
            else if mid then launched st now ''star'' (b_mid audioData) st1
            else if high then launched st now ''leaf'' (b_high audioData) st1
            else if 1500 < elapsed then launched st now ''dot'' 0.3 st1
            else notLaunched st st1"
proof -
  note L = launchRocket_launched [OF rnd]
  show ?thesis
    unfolding Let_def launchPhase_def andRandomBelow_def
    by (simp add: L notLaunched_def split: prod.splits)
qed

lemma update_rockets:
  "rockets (update rnd now time audioData st) = rockets (afterRockets rnd now time audioData st)"
  by (simp add: update_def Let_def shockwavesLoop_fields particlesLoop_fields)

subsection \<open>Launch, flight and burst\<close>

text \<open>
  A frame launches a rocket without any band above its threshold, when 1500 ms have passed
  since the last launch; and a rocket does not move by its velocity alone, it sways in x.
\<close>

theorem idle_launch_counterexample:
  "b_low silence \<le> 0.45 \<and> b_mid silence \<le> 0.4 \<and> b_high silence \<le> 0.5 \<and>
   rockets newFireworks = [] \<and>
   map r_type (rockets (update (\<lambda>n. 0) 2000 2 silence newFireworks)) = [''dot''] \<and>
   v_x (r_pos (moveRocket 0.1 0 sampleRocket)) \<noteq>
     v_x (r_pos sampleRocket) + v_x (r_vel sampleRocket)"
  using sin_one_pos
  by (simp add: silence_def newFireworks_def update_def afterRockets_def launchPhase_def
      andRandomBelow_def launchRocket_def rocketStep_def moveRocket_def reached_def
      sampleRocket_def vadd_def vec_def Let_def)

text \<open>
  Claim C6, amended. In a frame the effect launches no rocket or one, and none before more
  than 100 ms have passed since the last launch. After them it launches a heart when the
  low band is above 0.45; otherwise a star when the mid band is above 0.4 and a random
  number is below 0.5; otherwise a leaf when the high band is above 0.5 and a random
  number is below 0.4; otherwise a dot of intensity 0.3 when more than 1500 ms have passed
  since the last launch, whatever the bands are; otherwise none. The intensity of a heart,
  a star or a leaf is the value of its band, and the time of a launch is recorded. Every
  rocket in flight moves by its velocity and by a sway of \<open>sin (10 time + index) 0.05\<close> in
  x. The rockets whose height has reached the target height leave the list of rockets, and
  each of them is turned into one burst of 150 plus the floor of 200 times its intensity
  particles at its position, with velocities in the shape of a heart for a heart rocket,
  of a star for a star rocket and of a sphere for a leaf or a dot rocket.
\<close>

theorem fireworks_frame:
  assumes "fw_inv st" and "\<forall>n. 0 \<le> rnd n \<and> rnd n < 1"
  shows "let elapsed = now - lastLaunchTime st;
             k = randomCount st;
             mid = (0.4 < b_mid audioData \<and> rnd k < 0.5);
             high = (0.5 < b_high audioData \<and>
                     rnd (if 0.4 < b_mid audioData then Suc k else k) < 0.4);
             st1 = launchPhase rnd now audioData st;
             st2 = afterRockets rnd now time audioData st;
             st' = update rnd now time audioData st
         in (if \<not> 100 < elapsed then st1 = st
             else if 0.45 < b_low audioData then launched st now ''heart'' (b_low audioData) st1
             else if mid then launched st now ''star'' (b_mid audioData) st1
             else if high then launched st now ''leaf'' (b_high audioData) st1
             else if 1500 < elapsed then launched st now ''dot'' 0.3 st1
             else notLaunched st st1) \<and>
            (\<forall>j r. r_pos (moveRocket time j r) =
                     vadd (vadd (r_pos r) (r_vel r)) (vec (sin (time * 10 + real j) * 0.05) 0 0) \<and>
                   r_vel (moveRocket time j r) = r_vel r \<and>
                   r_targetY (moveRocket time j r) = r_targetY r \<and>
                   r_type (moveRocket time j r) = r_type r \<and>
                   r_intensity (moveRocket time j r) = r_intensity r) \<and>
            rockets st' = filter (\<lambda>r. \<not> reached r) (movedRockets time (rockets st1)) \<and>
            (\<exists>news. particles st2 = particles st @ news \<and>
               list_all2 burstFrom (rev (filter reached (movedRockets time (rockets st1)))) news)"
proof -
  let ?st1 = "launchPhase rnd now audioData st"
  have i1: "fw_inv ?st1" using assms(1) by (rule launchPhase_inv)
  note ch = rocketsLoop_char [OF assms(2) i1 order_refl, of time]
  note a = launchPhase_decision [OF assms(2), of now st audioData, unfolded Let_def]
  have c: "\<forall>j r. r_pos (moveRocket time j r) =
                     vadd (vadd (r_pos r) (r_vel r)) (vec (sin (time * 10 + real j) * 0.05) 0 0) \<and>
                   r_vel (moveRocket time j r) = r_vel r \<and>
                   r_targetY (moveRocket time j r) = r_targetY r \<and>
                   r_type (moveRocket time j r) = r_type r \<and>
                   r_intensity (moveRocket time j r) = r_intensity r"
    by (simp add: moveRocket_def Let_def vadd_def vec_def)
  have d: "rockets (update rnd now time audioData st) =
      filter (\<lambda>r. \<not> reached r) (movedRockets time (rockets ?st1))"
    using ch by (simp add: update_rockets afterRockets_def Let_def)
  have e: "\<exists>news. particles (afterRockets rnd now time audioData st) = particles st @ news \<and>
               list_all2 burstFrom (rev (filter reached (movedRockets time (rockets ?st1)))) news"
    using ch by (simp add: afterRockets_def Let_def launchPhase_particles)
  from a c d e show ?thesis unfolding Let_def by (intro conjI)
qed

text \<open>
  The theorem at a state with one heart rocket below its target height by less than a
  move, in a frame with all bands above their thresholds, 200 ms after the last launch: a
  heart is launched, with the intensity of the low band, and stays in flight; the rocket
  that was in flight leaves the list and a burst of 250 particles is made.
\<close>

lemma sample_moved:
  "movedRockets 0 [sampleRocket] = [sampleRocket\<lparr>r_pos := vec 0 25.4 (- 20)\<rparr>]"
  by (simp add: movedRockets_def enumerate_eq_zip moveRocket_def sampleRocket_def vadd_def vec_def Let_def)

theorem fireworks_frame_witness:
  "fw_inv (newFireworks\<lparr>rockets := [sampleRocket]\<rparr>) \<and>
   (\<forall>n::nat. 0 \<le> (1 / 2 :: real) \<and> (1 / 2 :: real) < 1) \<and>
   100 < 200 - lastLaunchTime (newFireworks\<lparr>rockets := [sampleRocket]\<rparr>) \<and>
   0.45 < b_low loud \<and> 0.4 < b_mid loud \<and> 0.5 < b_high loud \<and>
   map r_type (rockets (update (\<lambda>n. 1 / 2) 200 0 loud (newFireworks\<lparr>rockets := [sampleRocket]\<rparr>))) =
     [''heart''] \<and>
   map r_intensity (rockets (update (\<lambda>n. 1 / 2) 200 0 loud (newFireworks\<lparr>rockets := [sampleRocket]\<rparr>))) =
     [0.9] \<and>
   (\<exists>b. particles (afterRockets (\<lambda>n. 1 / 2) 200 0 loud
            (newFireworks\<lparr>rockets := [sampleRocket]\<rparr>)) = [b] \<and>
        burstFrom (sampleRocket\<lparr>r_pos := vec 0 25.4 (- 20)\<rparr>) b \<and>
        length (p_velocities b) = 250)"
proof -
  let ?st = "newFireworks\<lparr>rockets := [sampleRocket]\<rparr>"
  let ?r = "sampleRocket\<lparr>r_pos := vec 0 25.4 (- 20)\<rparr>"
  let ?st1 = "launchPhase (\<lambda>n. 1 / 2) 200 loud ?st"
  have h1: "fw_inv ?st" by (simp add: fw_inv_def newFireworks_def sampleRocket_def)
  have h2: "\<forall>n::nat. 0 \<le> (\<lambda>n. 1 / 2 :: real) n \<and> (\<lambda>n. 1 / 2 :: real) n < 1" by simp
  have el: "100 < 200 - lastLaunchTime ?st" by (simp add: newFireworks_def)
  have b: "0.45 < b_low loud" "0.4 < b_mid loud" "0.5 < b_high loud" "b_low loud = 0.9"
    by (simp_all add: loud_def)
  have re: "reached ?r" by (simp add: reached_def sampleRocket_def vec_def)
  have p: "particles ?st = []" by (simp add: newFireworks_def)
  have rs: "rockets ?st = [sampleRocket]" by simp
  note t = fireworks_frame [OF h1 h2, of 200 loud 0, unfolded Let_def]
  have "launched ?st 200 ''heart'' (b_low loud) ?st1"
    using t by (simp only: el b(1) not_True_eq_False if_False if_True)
  then obtain r where r: "rockets ?st1 = [sampleRocket] @ [r]" "r_type r = ''heart''"
    "r_intensity r = 0.9" "v_y (r_pos r) = - 5" "v_y (r_vel r) < 1" "25 \<le> r_targetY r"
    unfolding launched_def rs b(4) by auto
  have mv: "movedRockets 0 (rockets ?st1) = [?r, moveRocket 0 1 r]"
    unfolding r(1) movedRockets_snoc sample_moved by simp
  have nr: "\<not> reached (moveRocket 0 1 r)"
    using r(4,5,6) by (simp add: reached_def moveRocket_def Let_def vadd_def)
  from t have r0: "rockets (update (\<lambda>n. 1 / 2) 200 0 loud ?st) = [moveRocket 0 1 r]"
    and "\<exists>news. particles (afterRockets (\<lambda>n. 1 / 2) 200 0 loud ?st) = news \<and>
        list_all2 burstFrom [?r] news"
    unfolding mv p using re nr by simp_all
  then obtain q where q: "particles (afterRockets (\<lambda>n. 1 / 2) 200 0 loud ?st) = [q]"
    "burstFrom ?r q"
    by (auto simp: list_all2_Cons1)
  have "length (p_velocities q) = 250"
    using q(2) by (simp add: burstFrom_def sampleRocket_def)
  with h1 el b r0 q r(2,3) show ?thesis by (auto simp: moveRocket_fields)
qed
end
